theory Spec2Isabelle
  imports Complex_Main "HOL-Library.Multiset"
begin

section \<open>The gridding engine of surface.c, embedded in HOL\<close>

text \<open>
  The embedding follows \<^verbatim>\<open>src/src/surface.c\<close> function by function.
  Conventions:
  \<^item> \<^verbatim>\<open>double\<close> and \<^verbatim>\<open>gmt_grdfloat\<close> values are real numbers and the casts between
    them are the identity, so every arithmetic expression of the source is read in exact
    arithmetic; rounding, infinities and NaN of data values are outside the model. A bound
    grid may hold NaN (meaning "no bound here"), so its cells are \<open>real option\<close>.
  \<^item> Grid arrays (\<^verbatim>\<open>C->Grid->data\<close>, \<^verbatim>\<open>C->status\<close>, \<^verbatim>\<open>C->Bound[]->data\<close>) are stores from
    node number to value; node numbers, rows and columns are integers (inside the
    padded grid no index expression of the source wraps).
  \<^item> Arrays of two (\<^verbatim>\<open>inc[2]\<close>, \<^verbatim>\<open>set_limit[2]\<close>, \<^verbatim>\<open>Bound[2]\<close>, ...) are a pair of fields
    with suffixes \<open>_x\<close>/\<open>_y\<close> or \<open>_lo\<close>/\<open>_hi\<close>; \<^verbatim>\<open>wesn[4]\<close> is four fields.
\<close>

subsection \<open>Constants, node codes and the quadrant table\<close>

definition SURFACE_OUTSIDE :: nat where
  "SURFACE_OUTSIDE = 2 ^ 63 - 1"

definition UINTMAX_MAX :: nat where
  "UINTMAX_MAX = 2 ^ 64 - 1"

definition SURFACE_CLOSENESS_FACTOR :: real where
  "SURFACE_CLOSENESS_FACTOR = 5 / 100"

definition SURFACE_IS_UNCONSTRAINED :: nat where "SURFACE_IS_UNCONSTRAINED = 0"
definition SURFACE_DATA_IS_IN_QUAD1 :: nat where "SURFACE_DATA_IS_IN_QUAD1 = 1"
definition SURFACE_DATA_IS_IN_QUAD2 :: nat where "SURFACE_DATA_IS_IN_QUAD2 = 2"
definition SURFACE_DATA_IS_IN_QUAD3 :: nat where "SURFACE_DATA_IS_IN_QUAD3 = 3"
definition SURFACE_DATA_IS_IN_QUAD4 :: nat where "SURFACE_DATA_IS_IN_QUAD4 = 4"
definition SURFACE_IS_CONSTRAINED :: nat where "SURFACE_IS_CONSTRAINED = 5"
definition SURFACE_UNCONSTRAINED :: nat where "SURFACE_UNCONSTRAINED = 0"
definition SURFACE_CONSTRAINED :: nat where "SURFACE_CONSTRAINED = 1"
definition SURFACE_BREAKLINE :: nat where "SURFACE_BREAKLINE = 1"

datatype surface_nodes = N2 | NW | N1 | NE | W2 | W1 | E1 | E2 | SW | S1 | SE | S2

definition all_surface_nodes :: "surface_nodes list" where
  "all_surface_nodes = [N2, NW, N1, NE, W2, W1, E1, E2, SW, S1, SE, S2]"

text \<open>The static table \<^verbatim>\<open>p[5][4]\<close>; row 0 is never used (the source fills it with 0 = N2).\<close>

fun surface_p :: "nat \<Rightarrow> surface_nodes list" where
  "surface_p q =
     (if q = 1 then [NW, W1, S1, SE]
      else if q = 2 then [SW, S1, E1, NE]
      else if q = 3 then [SE, E1, N1, NW]
      else if q = 4 then [NE, N1, W1, SW]
      else [N2, N2, N2, N2])"

subsection \<open>Data structures\<close>

record SURFACE_DATA =
  d_x :: real
  d_y :: real
  d_z :: real
  d_kind :: nat
  d_index :: nat

record SURFACE_INFO =
  node_sw_corner :: int
  node_se_corner :: int
  node_nw_corner :: int
  node_ne_corner :: int
  total_iterations :: nat
  data :: "SURFACE_DATA list"
  Briggs :: "nat \<Rightarrow> real list"
  Grid_data :: "int \<Rightarrow> real"
  hdr_n_columns :: int
  hdr_n_rows :: int
  hdr_inc_x :: real
  hdr_inc_y :: real
  wesn_xlo :: real
  wesn_xhi :: real
  wesn_ylo :: real
  wesn_yhi :: real
  Bound_lo :: "int \<Rightarrow> real option"
  Bound_hi :: "int \<Rightarrow> real option"
  set_limit_lo :: nat
  set_limit_hi :: nat
  limit_lo :: real
  limit_hi :: real
  max_iterations :: nat
  current_stride :: int
  n_columns :: int
  n_rows :: int
  mx :: int
  current_nx :: int
  current_ny :: int
  current_mx :: int
  previous_nx :: int
  previous_ny :: int
  previous_mx :: int
  current_mxmy :: int
  offset :: "surface_nodes \<Rightarrow> int"
  status :: "int \<Rightarrow> nat"
  periodic :: bool
  constrained :: bool
  inc_x :: real
  inc_y :: real
  r_inc_x :: real
  r_inc_y :: real
  converge_limit :: real
  converge_mode :: nat
  boundary_tension :: real
  interior_tension :: real
  z_rms :: real
  r_z_rms :: real
  plane_icept :: real
  plane_sx :: real
  plane_sy :: real
  coeff :: "nat \<Rightarrow> surface_nodes \<Rightarrow> real"
  relax_old :: real
  relax_new :: real
  alpha :: real
  a0_const_1 :: real
  a0_const_2 :: real
  alpha2 :: real
  e_m2 :: real
  one_plus_e2 :: real
  eps_p2 :: real
  eps_m2 :: real
  two_plus_ep2 :: real
  two_plus_em2 :: real

subsection \<open>Macros\<close>

definition row_col_to_node :: "int \<Rightarrow> int \<Rightarrow> int \<Rightarrow> int" where
  "row_col_to_node row col m = (row + 2) * m + col + 2"

definition row_col_to_index :: "int \<Rightarrow> int \<Rightarrow> int \<Rightarrow> int" where
  "row_col_to_index row col n = row * n + col"

definition x_to_fcol :: "real \<Rightarrow> real \<Rightarrow> real \<Rightarrow> real" where
  "x_to_fcol xv x0 idx = (xv - x0) * idx"

definition x_to_col :: "real \<Rightarrow> real \<Rightarrow> real \<Rightarrow> int" where
  "x_to_col xv x0 idx = \<lfloor>x_to_fcol xv x0 idx + 1 / 2\<rfloor>"

definition y_to_frow :: "real \<Rightarrow> real \<Rightarrow> real \<Rightarrow> real" where
  "y_to_frow yv y0 idy = (yv - y0) * idy"

definition y_to_row :: "real \<Rightarrow> real \<Rightarrow> real \<Rightarrow> int \<Rightarrow> int" where
  "y_to_row yv y0 idy nrows = nrows - 1 - x_to_col yv y0 idy"

definition col_to_x :: "int \<Rightarrow> real \<Rightarrow> real \<Rightarrow> real \<Rightarrow> int \<Rightarrow> real" where
  "col_to_x col x0 x1 dx ncols = (if col = ncols - 1 then x1 else x0 + of_int col * dx)"

definition row_to_y :: "int \<Rightarrow> real \<Rightarrow> real \<Rightarrow> real \<Rightarrow> int \<Rightarrow> real" where
  "row_to_y row y0 y1 dy nrows = (if row = nrows - 1 then y0 else y1 - of_int row * dy)"

definition evaluate_trend :: "SURFACE_INFO \<Rightarrow> real \<Rightarrow> real \<Rightarrow> real" where
  "evaluate_trend C xx y_up = plane_sx C * xx + plane_sy C * y_up"

definition evaluate_plane :: "SURFACE_INFO \<Rightarrow> real \<Rightarrow> real \<Rightarrow> real" where
  "evaluate_plane C xx y_up = plane_icept C + evaluate_trend C xx y_up"

definition index_to_col :: "nat \<Rightarrow> int \<Rightarrow> int" where
  "index_to_col i ncols = int i mod ncols"

definition index_to_row :: "nat \<Rightarrow> int \<Rightarrow> int" where
  "index_to_row i ncols = int i div ncols"

subsection \<open>surface_solve_Briggs_coefficients\<close>

definition surface_solve_Briggs_coefficients ::
  "SURFACE_INFO \<Rightarrow> real \<Rightarrow> real \<Rightarrow> real \<Rightarrow> real list" where
  "surface_solve_Briggs_coefficients C xx yy zv =
     (let xx_plus_yy = xx + yy;
          xx_plus_yy_plus_one = 1 + xx_plus_yy;
          inv_xx_plus_yy_plus_one = 1 / xx_plus_yy_plus_one;
          xx2 = xx * xx;
          yy2 = yy * yy;
          inv_delta = inv_xx_plus_yy_plus_one / xx_plus_yy;
          b0 = (xx2 + 2 * xx * yy + xx - yy2 - yy) * inv_delta;
          b1 = 2 * (yy - xx + 1) * inv_xx_plus_yy_plus_one;
          b2 = 2 * (xx - yy + 1) * inv_xx_plus_yy_plus_one;
          b3 = (- xx2 + 2 * xx * yy - xx + yy2 + yy) * inv_delta;
          b_4 = 4 * inv_delta;
          b5 = b0 + b1 + b2 + b3 + b_4;
          b4 = b_4 * zv;
          b5' = 1 / (a0_const_1 C + a0_const_2 C * b5)
      in [b0, b1, b2, b3, b4, b5'])"

subsection \<open>The quadrant choice of surface_find_nearest_constraint\<close>

text \<open>
  The test "really close" and the reflection of \<open>(dx, dy)\<close> into the first quadrant,
  as written in the loop body of \<^verbatim>\<open>surface_find_nearest_constraint\<close>. The result of
  \<open>surface_quadrant\<close> is the status code and the pair \<open>(xx, yy)\<close> handed to
  \<open>surface_solve_Briggs_coefficients\<close>.
\<close>

definition really_close :: "real \<Rightarrow> real \<Rightarrow> bool" where
  "really_close dx dy \<longleftrightarrow>
     \<bar>dx\<bar> < SURFACE_CLOSENESS_FACTOR \<and> \<bar>dy\<bar> < SURFACE_CLOSENESS_FACTOR"

definition surface_quadrant :: "real \<Rightarrow> real \<Rightarrow> nat \<times> real \<times> real" where
  "surface_quadrant dx dy =
     (if 0 \<le> dy then
        (if 0 \<le> dx then (SURFACE_DATA_IS_IN_QUAD1, dx, dy)
         else (SURFACE_DATA_IS_IN_QUAD2, dy, - dx))
      else
        (if 0 \<le> dx then (SURFACE_DATA_IS_IN_QUAD4, - dy, dx)
         else (SURFACE_DATA_IS_IN_QUAD3, - dx, - dy)))"

subsection \<open>Grid loops\<close>

text \<open>A C loop \<^verbatim>\<open>for (i = 0; i < n; i++)\<close> over an \<^verbatim>\<open>int\<close> visits \<open>c_range n\<close> in order.\<close>

definition c_range :: "int \<Rightarrow> int list" where
  "c_range n = map int [0..<nat n]"

text \<open>
  Modelled from the spec: the grid macros \<^verbatim>\<open>gmt_M_ijp\<close> and \<^verbatim>\<open>gmt_M_grd_loop\<close> of GMT's
  grid headers are not part of the sources at hand. By the spec a grid carries a pad of
  two nodes on every side, its padded width is \<open>mx = n_columns + 4\<close> and the node of
  \<open>(row, col)\<close> is \<open>(row + 2) * mx + (col + 2)\<close>; the loop visits the header's rows and,
  within a row, its columns, in ascending order.
\<close>

definition gmt_M_ijp :: "int \<Rightarrow> int \<Rightarrow> int \<Rightarrow> int" where
  "gmt_M_ijp hmx row col = (row + 2) * hmx + col + 2"

definition gmt_M_grd_loop :: "SURFACE_INFO \<Rightarrow> (int \<times> int \<times> int) list" where
  "gmt_M_grd_loop C =
     concat (map (\<lambda>row. map (\<lambda>col. (row, col, gmt_M_ijp (hdr_n_columns C + 4) row col))
                           (c_range (hdr_n_columns C)))
                 (c_range (hdr_n_rows C)))"

subsection \<open>surface_set_coefficients, surface_set_offset, surface_set_grid_parameters\<close>

definition surface_set_coefficients :: "SURFACE_INFO \<Rightarrow> SURFACE_INFO" where
  "surface_set_coefficients C =
     (let loose = 1 - interior_tension C;
          a2 = alpha C * alpha C;
          alpha4 = a2 * a2;
          ep2 = a2;
          em2 = 1 / a2;
          ope2 = 1 + a2;
          a0 = 1 / ((6 * alpha4 * loose + 10 * a2 * loose + 8 * loose - 2 * ope2)
                    + 4 * interior_tension C * ope2);
          cW2 = - loose;
          cN2 = - loose * alpha4;
          uW2 = - loose * a0;
          uN2 = - loose * alpha4 * a0;
          cW1 = 2 * loose * ope2;
          uW1 = (2 * cW1 + interior_tension C) * a0;
          cN1 = cW1 * a2;
          uN1 = uW1 * a2;
          cNW = - 2 * loose * a2;
          uNW = cNW * a0
      in C\<lparr>alpha2 := a2 * 2,
           eps_p2 := ep2,
           eps_m2 := em2,
           one_plus_e2 := ope2,
           two_plus_ep2 := 2 + 2 * ep2,
           two_plus_em2 := 2 + 2 * em2,
           e_m2 := (1 / a2) * 2,
           a0_const_1 := 2 * loose * (1 + alpha4),
           a0_const_2 := 2 - interior_tension C + 2 * loose * a2,
           coeff := (\<lambda>s k.
             if s = SURFACE_CONSTRAINED then
               (case k of W2 \<Rightarrow> cW2 | E2 \<Rightarrow> cW2 | N2 \<Rightarrow> cN2 | S2 \<Rightarrow> cN2
                | W1 \<Rightarrow> cW1 | E1 \<Rightarrow> cW1 | N1 \<Rightarrow> cN1 | S1 \<Rightarrow> cN1
                | NW \<Rightarrow> cNW | NE \<Rightarrow> cNW | SW \<Rightarrow> cNW | SE \<Rightarrow> cNW)
             else if s = SURFACE_UNCONSTRAINED then
               (case k of W2 \<Rightarrow> uW2 | E2 \<Rightarrow> uW2 | N2 \<Rightarrow> uN2 | S2 \<Rightarrow> uN2
                | W1 \<Rightarrow> uW1 | E1 \<Rightarrow> uW1 | N1 \<Rightarrow> uN1 | S1 \<Rightarrow> uN1
                | NW \<Rightarrow> uNW | NE \<Rightarrow> uNW | SW \<Rightarrow> uNW | SE \<Rightarrow> uNW)
             else coeff C s k)\<rparr>)"

definition surface_set_offset :: "SURFACE_INFO \<Rightarrow> SURFACE_INFO" where
  "surface_set_offset C =
     C\<lparr>offset := (\<lambda>k. case k of
          N2 \<Rightarrow> - 2 * current_mx C
        | NW \<Rightarrow> - current_mx C - 1
        | N1 \<Rightarrow> - current_mx C
        | NE \<Rightarrow> - current_mx C + 1
        | W2 \<Rightarrow> - 2
        | W1 \<Rightarrow> - 1
        | E1 \<Rightarrow> 1
        | E2 \<Rightarrow> 2
        | SW \<Rightarrow> current_mx C - 1
        | S1 \<Rightarrow> current_mx C
        | SE \<Rightarrow> current_mx C + 1
        | S2 \<Rightarrow> 2 * current_mx C)\<rparr>"

text \<open>C's \<^verbatim>\<open>/\<close> on \<^verbatim>\<open>int\<close> truncates toward zero.\<close>

definition c_div :: "int \<Rightarrow> int \<Rightarrow> int" where
  "c_div a b = sgn a * sgn b * (\<bar>a\<bar> div \<bar>b\<bar>)"

definition surface_set_grid_parameters :: "SURFACE_INFO \<Rightarrow> SURFACE_INFO" where
  "surface_set_grid_parameters C =
     (let nx = c_div (n_columns C - 1) (current_stride C) + 1;
          ny = c_div (n_rows C - 1) (current_stride C) + 1;
          cmx = nx + 4;
          ix = of_int (current_stride C) * hdr_inc_x C;
          iy = of_int (current_stride C) * hdr_inc_y C;
          nw = 2 * cmx + 2;
          sw = nw + (ny - 1) * cmx
      in C\<lparr>previous_nx := current_nx C,
           previous_mx := current_mx C,
           previous_ny := current_ny C,
           current_nx := nx,
           current_ny := ny,
           current_mx := cmx,
           current_mxmy := cmx * (ny + 4),
           inc_x := ix,
           inc_y := iy,
           r_inc_x := 1 / ix,
           r_inc_y := 1 / iy,
           node_nw_corner := nw,
           node_sw_corner := sw,
           node_se_corner := sw + nx - 1,
           node_ne_corner := nw + nx - 1\<rparr>)"

subsection \<open>surface_compare_points\<close>

text \<open>
  The comparison handed to \<^verbatim>\<open>QSORT_R\<close>; the \<^verbatim>\<open>SURFACE_SEARCH\<close> block it receives holds
  copies of \<open>current_nx\<close>, \<open>current_ny\<close>, \<open>inc\<close> and \<open>wesn\<close>, read here from \<open>C\<close>.
\<close>

definition surface_compare_points :: "SURFACE_INFO \<Rightarrow> SURFACE_DATA \<Rightarrow> SURFACE_DATA \<Rightarrow> int" where
  "surface_compare_points C point_1 point_2 =
     (let index_1 = d_index point_1; index_2 = d_index point_2 in
      if index_1 < index_2 then - 1
      else if index_1 > index_2 then 1
      else if index_1 = SURFACE_OUTSIDE then 0
      else if d_kind point_1 = SURFACE_BREAKLINE \<and> d_kind point_2 = 0 then - 1
      else if d_kind point_2 = SURFACE_BREAKLINE \<and> d_kind point_1 = 0 then 1
      else
        (let row = index_to_row index_1 (current_nx C);
             col = index_to_col index_1 (current_nx C);
             x0 = col_to_x col (wesn_xlo C) (wesn_xhi C) (inc_x C) (current_nx C);
             y0 = row_to_y row (wesn_ylo C) (wesn_yhi C) (inc_y C) (current_ny C);
             dist_1 = (d_x point_1 - x0) * (d_x point_1 - x0)
                    + (d_y point_1 - y0) * (d_y point_1 - y0);
             dist_2x = (d_x point_2 - x0) * (d_x point_2 - x0)
         in if dist_1 < dist_2x then - 1
            else
              (let dist_2 = dist_2x + (d_y point_2 - y0) * (d_y point_2 - y0)
               in if dist_1 < dist_2 then - 1
                  else if dist_1 > dist_2 then 1
                  else 0)))"

subsection \<open>surface_find_nearest_constraint\<close>







subsection \<open>surface_set_BCs\<close>

definition BC1_south_north :: "SURFACE_INFO \<Rightarrow> real \<Rightarrow> real \<Rightarrow> (int \<Rightarrow> real) \<Rightarrow> int \<Rightarrow> (int \<Rightarrow> real)" where
  "BC1_south_north C y_0_const y_1_const u col =
     (let n_s = node_sw_corner C + col;
          n_n = node_nw_corner C + col;
          u1 = u(n_s + offset C S1 := y_0_const * u n_s + y_1_const * u (n_s + offset C N1));
          u2 = u1(n_n + offset C N1 := y_0_const * u1 n_n + y_1_const * u1 (n_n + offset C S1))
      in u2)"

definition BC1_west_east :: "SURFACE_INFO \<Rightarrow> real \<Rightarrow> real \<Rightarrow> (int \<Rightarrow> real) \<Rightarrow> int \<Rightarrow> (int \<Rightarrow> real)" where
  "BC1_west_east C x_0_const x_1_const u row =
     (let n_w = node_nw_corner C + row * current_mx C;
          n_e = node_ne_corner C + row * current_mx C
      in if periodic C then
           (let u1 = u(n_w + offset C W1 := u (n_e + offset C W1));
                u2 = u1(n_e + offset C E1 := u1 (n_w + offset C E1));
                avg = (1 / 2) * (u2 n_e + u2 n_w);
                u3 = u2(n_w := avg);
                u4 = u3(n_e := avg)
            in u4)
         else
           (let u1 = u(n_w + offset C W1 := x_1_const * u (n_w + offset C E1) + x_0_const * u n_w);
                u2 = u1(n_e + offset C E1 := x_1_const * u1 (n_e + offset C W1) + x_0_const * u1 n_e)
            in u2))"

definition BC_corners :: "SURFACE_INFO \<Rightarrow> (int \<Rightarrow> real) \<Rightarrow> (int \<Rightarrow> real)" where
  "BC_corners C u =
     (let d_n = offset C;
          n1 = node_sw_corner C;
          u1 = u(n1 + d_n SW := u (n1 + d_n SE) + u (n1 + d_n NW) - u (n1 + d_n NE));
          n2 = node_nw_corner C;
          u2 = u1(n2 + d_n NW := u1 (n2 + d_n NE) + u1 (n2 + d_n SW) - u1 (n2 + d_n SE));
          n3 = node_se_corner C;
          u3 = u2(n3 + d_n SE := u2 (n3 + d_n SW) + u2 (n3 + d_n NE) - u2 (n3 + d_n NW));
          n4 = node_ne_corner C;
          u4 = u3(n4 + d_n NE := u3 (n4 + d_n NW) + u3 (n4 + d_n SE) - u3 (n4 + d_n SW))
      in u4)"

text \<open>The right-hand sides of the two assignments in the loop "set BC2 along south and north side".\<close>

definition BC2_south_value :: "SURFACE_INFO \<Rightarrow> (int \<Rightarrow> real) \<Rightarrow> int \<Rightarrow> real" where
  "BC2_south_value C u n_s =
     (let d_n = offset C
      in u (n_s + d_n N2)
         + eps_m2 C * (u (n_s + d_n NW) + u (n_s + d_n NE) - u (n_s + d_n SW) - u (n_s + d_n SE))
         + two_plus_em2 C * (u (n_s + d_n S1) - u (n_s + d_n N1)))"

definition BC2_north_value :: "SURFACE_INFO \<Rightarrow> (int \<Rightarrow> real) \<Rightarrow> int \<Rightarrow> real" where
  "BC2_north_value C u n_n =
     (let d_n = offset C
      in u (n_n + d_n S2)
         + eps_m2 C * (u (n_n + d_n SW) + u (n_n + d_n SE) - u (n_n + d_n NW) - u (n_n + d_n NE))
         + two_plus_em2 C * (u (n_n + d_n N1) - u (n_n + d_n S1)))"

definition BC2_south_north :: "SURFACE_INFO \<Rightarrow> (int \<Rightarrow> real) \<Rightarrow> int \<Rightarrow> (int \<Rightarrow> real)" where
  "BC2_south_north C u col =
     (let d_n = offset C;
          n_s = node_sw_corner C + col;
          n_n = node_nw_corner C + col;
          u1 = u(n_s + d_n S2 := BC2_south_value C u n_s);
          u2 = u1(n_n + d_n N2 := BC2_north_value C u1 n_n)
      in u2)"

definition BC2_west_east :: "SURFACE_INFO \<Rightarrow> (int \<Rightarrow> real) \<Rightarrow> int \<Rightarrow> (int \<Rightarrow> real)" where
  "BC2_west_east C u row =
     (let d_n = offset C;
          n_w = node_nw_corner C + row * current_mx C;
          n_e = node_ne_corner C + row * current_mx C
      in if periodic C then
           (let u1 = u(n_w + d_n W2 := u (n_e + d_n W2));
                u2 = u1(n_e + d_n E2 := u1 (n_w + d_n E2))
            in u2)
         else
           (let u1 = u(n_w + d_n W2 :=
                       u (n_w + d_n E2)
                       + eps_p2 C * (u (n_w + d_n NE) + u (n_w + d_n SE) - u (n_w + d_n NW) - u (n_w + d_n SW))
                       + two_plus_ep2 C * (u (n_w + d_n W1) - u (n_w + d_n E1)));
                u2 = u1(n_e + d_n E2 :=
                       u1 (n_e + d_n W2)
                       + eps_p2 C * (u1 (n_e + d_n NW) + u1 (n_e + d_n SW) - u1 (n_e + d_n NE) - u1 (n_e + d_n SE))
                       + two_plus_ep2 C * (u1 (n_e + d_n E1) - u1 (n_e + d_n W1)))
            in u2))"

definition surface_set_BCs :: "SURFACE_INFO \<Rightarrow> (int \<Rightarrow> real) \<Rightarrow> (int \<Rightarrow> real)" where
  "surface_set_BCs C u =
     (let x_0_const = 4 * (1 - boundary_tension C) / (2 - boundary_tension C);
          x_1_const = (3 * boundary_tension C - 2) / (2 - boundary_tension C);
          y_denom = 2 * alpha C * (1 - boundary_tension C) + boundary_tension C;
          y_0_const = 4 * alpha C * (1 - boundary_tension C) / y_denom;
          y_1_const = (boundary_tension C - 2 * alpha C * (1 - boundary_tension C)) / y_denom;
          ua = foldl (BC1_south_north C y_0_const y_1_const) u (c_range (current_nx C));
          ub = foldl (BC1_west_east C x_0_const x_1_const) ua (c_range (current_ny C));
          uc = BC_corners C ub;
          ud = foldl (BC2_south_north C) uc (c_range (current_nx C));
          ue = foldl (BC2_west_east C) ud (c_range (current_ny C))
      in ue)"

subsection \<open>surface_iterate\<close>

text \<open>
  One pass of the body of the column loop, at the node of \<open>(row, col)\<close>. The sweep state
  is \<open>(u, briggs_index, max_u_change)\<close>; \<open>u_old\<close> and \<open>u_new\<close> of the source are the same
  array.
\<close>

type_synonym sweep_state = "(int \<Rightarrow> real) \<times> nat \<times> real"

definition iterate_node :: "SURFACE_INFO \<Rightarrow> int \<Rightarrow> sweep_state \<Rightarrow> int \<Rightarrow> sweep_state" where
  "iterate_node C row s col =
     (case s of (u, briggs_index, max_u_change) \<Rightarrow>
      let node = node_nw_corner C + row * current_mx C + col;
          node_final = gmt_M_ijp (hdr_n_columns C + 4) (current_stride C * row) 0
                       + col * current_stride C
      in if status C node = SURFACE_IS_CONSTRAINED then s
         else
           (let set = (if status C node = SURFACE_IS_UNCONSTRAINED
                       then SURFACE_UNCONSTRAINED else SURFACE_CONSTRAINED);
                u_00a = foldl (\<lambda>acc k. acc + u (node + offset C k) * coeff C set k)
                              0 all_surface_nodes;
                u_00b =
                  (if set = SURFACE_CONSTRAINED then
                     (let b = Briggs C briggs_index;
                          quadrant = status C node;
                          sum_bk_uk = foldl (\<lambda>acc k. acc + b ! k * u (node + offset C (surface_p quadrant ! k)))
                                            0 [0..<4]
                      in (u_00a + a0_const_2 C * (sum_bk_uk + b ! 4)) * b ! 5)
                   else u_00a);
                briggs_index' = (if set = SURFACE_CONSTRAINED then briggs_index + 1 else briggs_index);
                u_00c = u node * relax_old C + u_00b * relax_new C;
                u_00 =
                  (if constrained C then
                     (if set_limit_lo C \<noteq> 0 \<and> Bound_lo C node_final \<noteq> None
                         \<and> u_00c < the (Bound_lo C node_final)
                      then the (Bound_lo C node_final)
                      else if set_limit_hi C \<noteq> 0 \<and> Bound_hi C node_final \<noteq> None
                         \<and> u_00c > the (Bound_hi C node_final)
                      then the (Bound_hi C node_final)
                      else u_00c)
                   else u_00c);
                u_change = \<bar>u_00 - u node\<bar>
            in (u(node := u_00), briggs_index',
                if u_change > max_u_change then u_change else max_u_change)))"

definition sweep_row :: "SURFACE_INFO \<Rightarrow> sweep_state \<Rightarrow> int \<Rightarrow> sweep_state" where
  "sweep_row C s row = foldl (iterate_node C row) s (c_range (current_nx C))"

text \<open>One trip through the body of the \<^verbatim>\<open>do ... while\<close> loop, up to the end of the row loop.\<close>

definition surface_sweep :: "SURFACE_INFO \<Rightarrow> sweep_state" where
  "surface_sweep C =
     foldl (sweep_row C) (surface_set_BCs C (Grid_data C), 0, - 1) (c_range (current_ny C))"









subsection \<open>surface_check_errors: the curvature report\<close>

text \<open>
  The function first refreshes the boundary values, then accumulates the misfit at the
  data points (which writes nothing to the grid) and finally sums the curvature over the
  grid loop; the curvature sum is modelled.
\<close>

definition surface_check_errors_curvature :: "SURFACE_INFO \<Rightarrow> real" where
  "surface_check_errors_curvature C =
     (let u = surface_set_BCs C (Grid_data C); d_node = offset C
      in foldl (\<lambda>curvature (row, col, node).
                  (let c = u (node + d_node E1) + u (node + d_node W1) + u (node + d_node N1)
                           + u (node + d_node S1) - 4 * u (node + d_node E1)
                   in curvature + c * c))
               0 (gmt_M_grd_loop C))"

subsection \<open>surface_load_constraints and surface_write_grid\<close>

text \<open>
  Reading a bound grid from a file is the work of a collaborator; the two grids a run
  would read arrive as the argument \<open>files\<close> (lower, upper), already of the shape of the
  solution grid, and reading does not fail. The header bookkeeping of
  \<^verbatim>\<open>surface_write_grid\<close> (wider pads after a region enlargement or for pixel registration)
  changes no grid value and is not modelled; the grid loops below are those of a
  gridline-registered run on the region as given.
\<close>

definition NONE :: nat where "NONE = 0"
definition DATA :: nat where "DATA = 1"
definition VALUE :: nat where "VALUE = 2"
definition SURFACE :: nat where "SURFACE = 3"

definition transform_bound :: "SURFACE_INFO \<Rightarrow> (int \<Rightarrow> real option) \<Rightarrow> (int \<Rightarrow> real option)" where
  "transform_bound C B =
     foldl (\<lambda>B row.
              foldl (\<lambda>B col.
                       (let y_up = of_int (hdr_n_rows C - row - 1);
                            node = row_col_to_node row 0 (current_mx C) + col
                        in case B node of
                             None \<Rightarrow> B
                           | Some v \<Rightarrow>
                               B(node := Some ((v - evaluate_plane C (of_int col) y_up) * r_z_rms C))))
                    B (c_range (hdr_n_columns C)))
           B (c_range (hdr_n_rows C))"

definition load_one_constraint ::
  "SURFACE_INFO \<Rightarrow> bool \<Rightarrow> nat \<Rightarrow> real \<Rightarrow> (int \<Rightarrow> real option) \<Rightarrow> (int \<Rightarrow> real option)" where
  "load_one_constraint C transform mode limit file =
     (let B = (if mode < SURFACE then (\<lambda>node. Some limit) else file)
      in if transform then transform_bound C B else B)"

definition surface_load_constraints ::
  "(int \<Rightarrow> real option) \<times> (int \<Rightarrow> real option) \<Rightarrow> SURFACE_INFO \<Rightarrow> bool \<Rightarrow> SURFACE_INFO" where
  "surface_load_constraints files C transform =
     (let C1 = (if set_limit_lo C = NONE then C
                else C\<lparr>Bound_lo := load_one_constraint C transform (set_limit_lo C) (limit_lo C) (fst files),
                       constrained := True\<rparr>);
          C2 = (if set_limit_hi C1 = NONE then C1
                else C1\<lparr>Bound_hi := load_one_constraint C1 transform (set_limit_hi C1) (limit_hi C1) (snd files),
                        constrained := True\<rparr>)
      in C2)"

definition clip_node :: "SURFACE_INFO \<Rightarrow> (int \<Rightarrow> real) \<Rightarrow> int \<times> int \<times> int \<Rightarrow> (int \<Rightarrow> real)" where
  "clip_node C u t =
     (case t of (row, col, node) \<Rightarrow>
        (let u1 = (if set_limit_lo C \<noteq> 0 \<and> Bound_lo C node \<noteq> None \<and> u node < the (Bound_lo C node)
                   then u(node := the (Bound_lo C node)) else u);
             u2 = (if set_limit_hi C \<noteq> 0 \<and> Bound_hi C node \<noteq> None \<and> u1 node > the (Bound_hi C node)
                   then u1(node := the (Bound_hi C node)) else u1)
         in u2))"

definition periodic_average :: "SURFACE_INFO \<Rightarrow> (int \<Rightarrow> real) \<Rightarrow> int \<Rightarrow> (int \<Rightarrow> real)" where
  "periodic_average C u row =
     (let node = row_col_to_node row 0 (current_mx C);
          avg = (1 / 2) * (u node + u (node + current_nx C - 1));
          u1 = u(node + current_nx C - 1 := avg);
          u2 = u1(node := avg)
      in u2)"

text \<open>The result is the error code and the structure whose grid is handed to the writer.\<close>

definition surface_write_grid ::
  "(int \<Rightarrow> real option) \<times> (int \<Rightarrow> real option) \<Rightarrow> SURFACE_INFO \<Rightarrow> int \<times> SURFACE_INFO" where
  "surface_write_grid files C =
     (let C1 = (if constrained C then
                  (let Cl = surface_load_constraints files C False
                   in Cl\<lparr>Grid_data := foldl (clip_node Cl) (Grid_data Cl) (gmt_M_grd_loop Cl)\<rparr>)
                else C);
          C2 = (if periodic C1 then
                  C1\<lparr>Grid_data := foldl (periodic_average C1) (Grid_data C1) (c_range (current_ny C1))\<rparr>
                else C1)
      in (0, C2))"

subsection \<open>surface_remove_planar_trend, surface_restore_planar_trend, surface_rescale_z_values\<close>

definition data_fcol :: "SURFACE_INFO \<Rightarrow> SURFACE_DATA \<Rightarrow> real" where
  "data_fcol C d = x_to_fcol (d_x d) (wesn_xlo C) (1 / hdr_inc_x C)"

definition data_frow :: "SURFACE_INFO \<Rightarrow> SURFACE_DATA \<Rightarrow> real" where
  "data_frow C d = y_to_frow (d_y d) (wesn_ylo C) (1 / hdr_inc_y C)"

definition surface_remove_planar_trend :: "SURFACE_INFO \<Rightarrow> SURFACE_INFO" where
  "surface_remove_planar_trend C =
     (let np = of_nat (length (data C));
          sx = (\<Sum>d\<leftarrow>data C. data_fcol C d);
          sy = (\<Sum>d\<leftarrow>data C. data_frow C d);
          sz = (\<Sum>d\<leftarrow>data C. d_z d);
          sxx = (\<Sum>d\<leftarrow>data C. data_fcol C d * data_fcol C d);
          sxy = (\<Sum>d\<leftarrow>data C. data_fcol C d * data_frow C d);
          sxz = (\<Sum>d\<leftarrow>data C. data_fcol C d * d_z d);
          syy = (\<Sum>d\<leftarrow>data C. data_frow C d * data_frow C d);
          syz = (\<Sum>d\<leftarrow>data C. data_frow C d * d_z d);
          d = np * sxx * syy + 2 * sx * sy * sxy - np * sxy * sxy - sx * sx * syy - sy * sy * sxx
      in if d = 0 then C\<lparr>plane_icept := 0, plane_sx := 0, plane_sy := 0\<rparr>
         else
           (let a = sz * sxx * syy + sx * sxy * syz + sy * sxy * sxz
                    - sz * sxy * sxy - sx * sxz * syy - sy * syz * sxx;
                b = np * sxz * syy + sz * sy * sxy + sy * sx * syz
                    - np * sxy * syz - sz * sx * syy - sy * sy * sxz;
                c = np * sxx * syz + sx * sy * sxz + sz * sx * sxy
                    - np * sxy * sxz - sx * sx * syz - sz * sy * sxx;
                C1 = C\<lparr>plane_icept := a / d, plane_sx := (if periodic C then 0 else b / d),
                       plane_sy := c / d\<rparr>
            in C1\<lparr>data := map (\<lambda>p. p\<lparr>d_z := d_z p - evaluate_plane C1 (data_fcol C p) (data_frow C p)\<rparr>)
                               (data C)\<rparr>))"

definition restore_node :: "SURFACE_INFO \<Rightarrow> int \<Rightarrow> (int \<Rightarrow> real) \<Rightarrow> int \<Rightarrow> (int \<Rightarrow> real)" where
  "restore_node C row u col =
     (let y_up = of_int (hdr_n_rows C - row - 1);
          node = row_col_to_node row 0 (current_mx C) + col
      in u(node := u node * z_rms C + evaluate_plane C (of_int col) y_up))"

definition surface_restore_planar_trend :: "SURFACE_INFO \<Rightarrow> SURFACE_INFO" where
  "surface_restore_planar_trend C =
     C\<lparr>Grid_data := foldl (\<lambda>u row. foldl (restore_node C row) u (c_range (hdr_n_columns C)))
                           (Grid_data C) (c_range (hdr_n_rows C))\<rparr>"

text \<open>
  Modelled from the spec: the threshold \<^verbatim>\<open>GMT_CONV8_LIMIT\<close> comes from a GMT header that is
  not at hand; the spec gives it as \<open>1e-8\<close>.
\<close>

definition GMT_CONV8_LIMIT :: real where
  "GMT_CONV8_LIMIT = 1 / 10 ^ 8"

definition SURFACE_CONV_LIMIT :: real where
  "SURFACE_CONV_LIMIT = 1 / 10 ^ 4"

definition BY_PERCENT :: nat where "BY_PERCENT = 1"

definition surface_rescale_z_values :: "SURFACE_INFO \<Rightarrow> int \<times> SURFACE_INFO" where
  "surface_rescale_z_values C =
     (let ssz = (\<Sum>d\<leftarrow>data C. d_z d * d_z d);
          rms = sqrt (ssz / of_nat (length (data C)))
      in if rms < GMT_CONV8_LIMIT then (1, C\<lparr>z_rms := 1, r_z_rms := 1\<rparr>)
         else
           (let C1 = C\<lparr>z_rms := rms, r_z_rms := 1 / rms\<rparr>;
                C2 = C1\<lparr>data := map (\<lambda>p. p\<lparr>d_z := d_z p * r_z_rms C1\<rparr>) (data C1)\<rparr>;
                C3 = (if converge_limit C2 = 0 \<or> converge_mode C2 = BY_PERCENT then
                        (let limit = (if converge_mode C2 = BY_PERCENT then converge_limit C2
                                      else SURFACE_CONV_LIMIT)
                         in C2\<lparr>converge_limit := limit * z_rms C2\<rparr>)
                      else C2)
            in (0, C3)))"

subsection \<open>surface_throw_away_unusables\<close>


text \<open>
  The marking loop: \<open>mark_unusables last_index n_outside ds\<close> runs the loop body over the
  remaining data \<open>ds\<close> and returns the final \<open>n_outside\<close> and the array as it is left.
\<close>

fun mark_unusables :: "nat \<Rightarrow> nat \<Rightarrow> SURFACE_DATA list \<Rightarrow> nat \<times> SURFACE_DATA list" where
  "mark_unusables last_index n_outside [] = (n_outside, [])"
| "mark_unusables last_index n_outside (d # ds) =
     (if d_index d = last_index then
        (case mark_unusables last_index (n_outside + 1) ds of
           (n, ms) \<Rightarrow> (n, d\<lparr>d_index := SURFACE_OUTSIDE\<rparr> # ms))
      else
        (case mark_unusables (d_index d) n_outside ds of
           (n, ms) \<Rightarrow> (n, d # ms)))"

definition surface_throw_away_unusables ::
  "((SURFACE_DATA \<Rightarrow> SURFACE_DATA \<Rightarrow> int) \<Rightarrow> SURFACE_DATA list \<Rightarrow> SURFACE_DATA list)
   \<Rightarrow> SURFACE_INFO \<Rightarrow> SURFACE_INFO" where
  "surface_throw_away_unusables qs C =
     (let sorted1 = qs (surface_compare_points C) (data C)
      in case mark_unusables UINTMAX_MAX 0 sorted1 of
           (n_outside, marked) \<Rightarrow>
             if n_outside \<noteq> 0 then
               C\<lparr>data := take (length (data C) - n_outside) (qs (surface_compare_points C) marked)\<rparr>
             else C\<lparr>data := marked\<rparr>)"

text \<open>A sort to run the model with: insertion sort by the comparison.\<close>

fun insert_by :: "('a \<Rightarrow> 'a \<Rightarrow> int) \<Rightarrow> 'a \<Rightarrow> 'a list \<Rightarrow> 'a list" where
  "insert_by cmp a [] = [a]"
| "insert_by cmp a (b # bs) = (if cmp a b \<le> 0 then a # b # bs else b # insert_by cmp a bs)"

definition insertion_sort :: "('a \<Rightarrow> 'a \<Rightarrow> int) \<Rightarrow> 'a list \<Rightarrow> 'a list" where
  "insertion_sort cmp xs = foldr (insert_by cmp) xs []"

subsection \<open>surface_interpolate_add_breakline: densifying a breakline\<close>

text \<open>
  Modelled from the C library: \<^verbatim>\<open>lrint\<close> rounds to the nearest integer, halves to the even
  neighbour (the default rounding mode); \<^verbatim>\<open>hypot\<close> is the Euclidean length.
\<close>

definition c_lrint :: "real \<Rightarrow> int" where
  "c_lrint v =
     (let f = \<lfloor>v\<rfloor>
      in if v - of_int f < 1 / 2 then f
         else if v - of_int f > 1 / 2 then f + 1
         else if even f then f else f + 1)"

definition hypot :: "real \<Rightarrow> real \<Rightarrow> real" where
  "hypot a b = sqrt (a * a + b * b)"

type_synonym vertex = "real \<times> real \<times> real"

definition n_int :: "SURFACE_INFO \<Rightarrow> vertex \<Rightarrow> vertex \<Rightarrow> int" where
  "n_int C v w =
     (case (v, w) of ((x0, y0, z0), (x1, y1, z1)) \<Rightarrow>
        c_lrint (hypot (x1 - x0) (y1 - y0) * max (r_inc_x C) (r_inc_y C)) + 1)"

text \<open>The sample written for loop counter \<open>n\<close> on the edge from \<open>v\<close> to \<open>w\<close>.\<close>

definition edge_sample :: "SURFACE_INFO \<Rightarrow> bool \<Rightarrow> real \<Rightarrow> vertex \<Rightarrow> vertex \<Rightarrow> int \<Rightarrow> vertex" where
  "edge_sample C fix_z z_level v w n =
     (case (v, w) of ((x0, y0, z0), (x1, y1, z1)) \<Rightarrow>
        (let dx = (x1 - x0) / of_int (n_int C v w);
             dy = (y1 - y0) / of_int (n_int C v w);
             dz = (z1 - z0) / of_int (n_int C v w)
         in (x0 + of_int n * dx, y0 + of_int n * dy,
             if fix_z then z_level else z0 + of_int n * dz)))"

definition interpolate_edge :: "SURFACE_INFO \<Rightarrow> bool \<Rightarrow> real \<Rightarrow> vertex \<Rightarrow> vertex \<Rightarrow> vertex list" where
  "interpolate_edge C fix_z z_level v w =
     map (edge_sample C fix_z z_level v w) (c_range (n_int C v w))"

text \<open>
  Step 1 of the segment loop: every edge contributes its samples, then the last vertex
  is written. (A segment has at least one vertex; the empty case is only there to make
  the function total.)
\<close>

fun interpolate_breakline :: "SURFACE_INFO \<Rightarrow> bool \<Rightarrow> real \<Rightarrow> vertex list \<Rightarrow> vertex list" where
  "interpolate_breakline C fix_z z_level [] = []"
| "interpolate_breakline C fix_z z_level [v] =
     [(fst v, fst (snd v), if fix_z then z_level else snd (snd v))]"
| "interpolate_breakline C fix_z z_level (v # w # rest) =
     interpolate_edge C fix_z z_level v w @ interpolate_breakline C fix_z z_level (w # rest)"

subsection \<open>GMT_surface: from the data to the planar exit\<close>

text \<open>
  The part of \<^verbatim>\<open>GMT_surface\<close> between setting the stride to 1 and the test of \<open>key\<close>.
  \<open>input\<close> is the array left by \<^verbatim>\<open>surface_read_data\<close> and the breakline step (a run with no
  usable point has already stopped with an error). \<open>multigrid\<close> stands for the rest of
  the function on the branch \<open>key \<noteq> 1\<close>: it is the only part that calls
  \<^verbatim>\<open>surface_iterate\<close>.
\<close>

definition GMT_NOERROR :: int where "GMT_NOERROR = 0"

definition GMT_surface_core ::
  "((SURFACE_DATA \<Rightarrow> SURFACE_DATA \<Rightarrow> int) \<Rightarrow> SURFACE_DATA list \<Rightarrow> SURFACE_DATA list)
   \<Rightarrow> (int \<Rightarrow> real option) \<times> (int \<Rightarrow> real option)
   \<Rightarrow> (SURFACE_INFO \<Rightarrow> int \<times> SURFACE_INFO)
   \<Rightarrow> SURFACE_DATA list \<Rightarrow> SURFACE_INFO \<Rightarrow> int \<times> SURFACE_INFO" where
  "GMT_surface_core qs files multigrid input C0 =
     (let C1 = surface_set_grid_parameters (C0\<lparr>current_stride := 1\<rparr>);
          C2 = C1\<lparr>data := input\<rparr>;
          C3 = surface_throw_away_unusables qs C2;
          C4 = surface_remove_planar_trend C3;
          (key, C5) = surface_rescale_z_values C4
      in if key = 1 then
           (let C6 = C5\<lparr>data := [], Grid_data := (\<lambda>node. 0)\<rparr>;
                C7 = surface_restore_planar_trend C6;
                (error, C8) = surface_write_grid files C7
            in if error \<noteq> 0 then (error, C8) else (GMT_NOERROR, C8))
         else multigrid C5)"

subsection \<open>Sample inputs\<close>

text \<open>
  \<open>C_memset\<close> is the structure as \<^verbatim>\<open>gmt_M_memset\<close> leaves it at the start of
  \<^verbatim>\<open>GMT_surface\<close>: every field zero.
\<close>

definition C_memset :: SURFACE_INFO where
  "C_memset =
    \<lparr>node_sw_corner = 0,
      node_se_corner = 0,
      node_nw_corner = 0,
      node_ne_corner = 0,
      total_iterations = 0,
      data = [],
      Briggs = (\<lambda>k. [0, 0, 0, 0, 0, 0]),
      Grid_data = (\<lambda>node. 0),
      hdr_n_columns = 0,
      hdr_n_rows = 0,
      hdr_inc_x = 0,
      hdr_inc_y = 0,
      wesn_xlo = 0,
      wesn_xhi = 0,
      wesn_ylo = 0,
      wesn_yhi = 0,
      Bound_lo = (\<lambda>node. Some 0),
      Bound_hi = (\<lambda>node. Some 0),
      set_limit_lo = 0,
      set_limit_hi = 0,
      limit_lo = 0,
      limit_hi = 0,
      max_iterations = 0,
      current_stride = 0,
      n_columns = 0,
      n_rows = 0,
      mx = 0,
      current_nx = 0,
      current_ny = 0,
      current_mx = 0,
      previous_nx = 0,
      previous_ny = 0,
      previous_mx = 0,
      current_mxmy = 0,
      offset = (\<lambda>k. 0),
      status = (\<lambda>node. 0),
      periodic = False,
      constrained = False,
      inc_x = 0,
      inc_y = 0,
      r_inc_x = 0,
      r_inc_y = 0,
      converge_limit = 0,
      converge_mode = 0,
      boundary_tension = 0,
      interior_tension = 0,
      z_rms = 0,
      r_z_rms = 0,
      plane_icept = 0,
      plane_sx = 0,
      plane_sy = 0,
      coeff = (\<lambda>s k. 0),
      relax_old = 0,
      relax_new = 0,
      alpha = 0,
      a0_const_1 = 0,
      a0_const_2 = 0,
      alpha2 = 0,
      e_m2 = 0,
      one_plus_e2 = 0,
      eps_p2 = 0,
      eps_m2 = 0,
      two_plus_ep2 = 0,
      two_plus_em2 = 0\<rparr>"

text \<open>
  \<open>C_4x4\<close> is a run on a grid of 4 by 4 nodes on the unit-spaced region
  \<open>[0, 3] \<times> [0, 3]\<close> at stride 1, with the defaults of the program (aspect ratio 1, no
  tension, over-relaxation 1.4, at most 500 iterations), after the grid parameters,
  offsets and coefficients have been set.
\<close>

definition C_4x4 :: SURFACE_INFO where
  "C_4x4 =
     surface_set_coefficients (surface_set_offset (surface_set_grid_parameters
       (C_memset\<lparr>hdr_n_columns := 4, hdr_n_rows := 4, hdr_inc_x := 1, hdr_inc_y := 1,
                 wesn_xlo := 0, wesn_xhi := 3, wesn_ylo := 0, wesn_yhi := 3,
                 n_columns := 4, n_rows := 4, mx := 8, current_stride := 1,
                 max_iterations := 500, alpha := 1, z_rms := 1, r_z_rms := 1,
                 relax_new := 14 / 10, relax_old := 1 - 14 / 10,
                 converge_limit := 1 / 10 ^ 4\<rparr>)))"

text \<open>
  The curvature figure in the words of the spec, for comparison with the source: the sum
  over the interior nodes of \<open>(u[E1] + u[W1] + u[N1] + u[S1] - 4 u[center])\<^sup>2\<close>, on the
  grid with refreshed boundary values.
\<close>

definition curvature_spec :: "SURFACE_INFO \<Rightarrow> real" where
  "curvature_spec C =
     (let u = surface_set_BCs C (Grid_data C); d_node = offset C
      in (\<Sum>(row, col, node)\<leftarrow>gmt_M_grd_loop C.
            (u (node + d_node E1) + u (node + d_node W1) + u (node + d_node N1)
             + u (node + d_node S1) - 4 * u node)\<^sup>2))"

text \<open>
  \<open>C_ridges\<close>: the 4 by 4 run whose grid holds \<open>1, -1, -1, 1\<close> along every row (the pad
  is zero). Sixteen data points that sit on the nodes with these values have a zero
  least-squares plane and unit rms, and fix every node, so this is the grid at the end
  of the iterations for that input.
\<close>

definition C_ridges :: SURFACE_INFO where
  "C_ridges = C_4x4\<lparr>Grid_data := (\<lambda>node. if node mod 8 = 2 \<or> node mod 8 = 5 then 1
                                         else if node mod 8 = 3 \<or> node mod 8 = 4 then - 1 else 0)\<rparr>"

text \<open>
  The second-order condition on the south edge in the words of the spec, with the factor
  \<open>2 + eps_m2\<close>, for comparison with \<open>BC2_south_value\<close>.
\<close>

definition BC2_south_spec :: "SURFACE_INFO \<Rightarrow> (int \<Rightarrow> real) \<Rightarrow> int \<Rightarrow> real" where
  "BC2_south_spec C u n_s =
     (let d_n = offset C
      in u (n_s + d_n N2)
         + eps_m2 C * (u (n_s + d_n NW) + u (n_s + d_n NE) - u (n_s + d_n SW) - u (n_s + d_n SE))
         + (2 + eps_m2 C) * (u (n_s + d_n S1) - u (n_s + d_n N1)))"

text \<open>\<open>C_terraces\<close>: the 4 by 4 run whose grid holds \<open>1, -1, -1, 1\<close> down every column.\<close>

definition C_terraces :: SURFACE_INFO where
  "C_terraces = C_4x4\<lparr>Grid_data := (\<lambda>node. if node div 8 = 2 \<or> node div 8 = 5 then 1
                                           else if node div 8 = 3 \<or> node div 8 = 4 then - 1 else 0)\<rparr>"

text \<open>
  \<open>C_plane\<close> and \<open>plane_input\<close>: scenario S2 of the spec. The region is the unit square with
  increment 0.25 (5 by 5 nodes); the four data points \<open>(0,0,0)\<close>, \<open>(1,0,1)\<close>, \<open>(0,1,1)\<close>,
  \<open>(1,1,2)\<close> sit on the corner nodes and carry the bin indices that \<^verbatim>\<open>surface_read_data\<close>
  gives them. \<open>C_plane\<close> is the structure after \<^verbatim>\<open>surface_init_parameters\<close>.
\<close>

definition C_plane :: SURFACE_INFO where
  "C_plane = C_memset\<lparr>hdr_n_columns := 5, hdr_n_rows := 5, hdr_inc_x := 1 / 4, hdr_inc_y := 1 / 4,
                       wesn_xlo := 0, wesn_xhi := 1, wesn_ylo := 0, wesn_yhi := 1,
                       n_columns := 5, n_rows := 5, mx := 9,
                       max_iterations := 500, alpha := 1, z_rms := 1, r_z_rms := 1,
                       relax_new := 14 / 10, relax_old := 1 - 14 / 10\<rparr>"

definition plane_input :: "SURFACE_DATA list" where
  "plane_input =
     [\<lparr>d_x = 0, d_y = 0, d_z = 0, d_kind = 0, d_index = 20\<rparr>,
      \<lparr>d_x = 1, d_y = 0, d_z = 1, d_kind = 0, d_index = 24\<rparr>,
      \<lparr>d_x = 0, d_y = 1, d_z = 1, d_kind = 0, d_index = 0\<rparr>,
      \<lparr>d_x = 1, d_y = 1, d_z = 2, d_kind = 0, d_index = 4\<rparr>]"

definition no_files :: "(int \<Rightarrow> real option) \<times> (int \<Rightarrow> real option)" where
  "no_files = (\<lambda>node. None, \<lambda>node. None)"





text \<open>
  \<open>sweep_arrival C row col\<close> is the state of a sweep at the moment the column loop
  reaches the node of \<open>(row, col)\<close>: the rows before \<open>row\<close> and the columns before \<open>col\<close>
  of that row have been done. Its second component is the \<^verbatim>\<open>briggs_index\<close> with which the
  body at that node reads the Briggs table.
\<close>

definition sweep_arrival :: "SURFACE_INFO \<Rightarrow> int \<Rightarrow> int \<Rightarrow> sweep_state" where
  "sweep_arrival C row col =
     foldl (iterate_node C row)
       (foldl (sweep_row C) (surface_set_BCs C (Grid_data C), 0, - 1) (c_range row))
       (c_range col)"





section \<open>Verified properties\<close>

subsection \<open>Briggs coefficients\<close>

lemma Briggs_inv_delta:
  "1 / (1 + (xx + yy)) / (xx + yy) = 1 / ((xx + yy) * (1 + xx + yy))" for xx yy :: real
  by (simp add: algebra_simps)

text \<open>
  C1. For a datum at reflected offsets \<open>(xx, yy)\<close> in the first quadrant with
  \<open>xx + yy > 0\<close> and value \<open>z\<close>, the six numbers stored by
  \<open>surface_solve_Briggs_coefficients\<close> are \<open>b0 = (xx\<^sup>2 + 2 xx yy + xx - yy\<^sup>2 - yy) / \<delta>\<close>,
  \<open>b1 = 2 (yy - xx + 1) / (1 + xx + yy)\<close>, \<open>b2 = 2 (xx - yy + 1) / (1 + xx + yy)\<close>,
  \<open>b3 = (- xx\<^sup>2 + 2 xx yy - xx + yy\<^sup>2 + yy) / \<delta>\<close>, \<open>b4 = (4 / \<delta>) z\<close> and
  \<open>b5 = 1 / (a0_const_1 + a0_const_2 (b0 + b1 + b2 + b3 + 4 / \<delta>))\<close>, where
  \<open>\<delta> = (xx + yy) (1 + xx + yy)\<close>.
\<close>

theorem Briggs_coefficients_stored:
  assumes "0 \<le> xx" and "0 \<le> yy" and "0 < xx + yy"
    and "delta = (xx + yy) * (1 + xx + yy)"
    and "b = surface_solve_Briggs_coefficients C xx yy zv"
  shows "length b = 6
    \<and> b ! 0 = (xx\<^sup>2 + 2 * xx * yy + xx - yy\<^sup>2 - yy) / delta
    \<and> b ! 1 = 2 * (yy - xx + 1) / (1 + xx + yy)
    \<and> b ! 2 = 2 * (xx - yy + 1) / (1 + xx + yy)
    \<and> b ! 3 = (- (xx\<^sup>2) + 2 * xx * yy - xx + yy\<^sup>2 + yy) / delta
    \<and> b ! 4 = (4 / delta) * zv
    \<and> b ! 5 = 1 / (a0_const_1 C + a0_const_2 C * (b ! 0 + b ! 1 + b ! 2 + b ! 3 + 4 / delta))"
proof -
  have d: "1 / (1 + (xx + yy)) / (xx + yy) = 1 / delta"
    using assms(4) Briggs_inv_delta [of xx yy] by simp
  show ?thesis
    unfolding assms(5) surface_solve_Briggs_coefficients_def Let_def d
    by (simp add: power2_eq_square add.assoc)
qed

theorem Briggs_coefficients_stored_witness:
  "(0::real) \<le> 1 \<and> (0::real) < 1 + 1
   \<and> surface_solve_Briggs_coefficients C_4x4 1 1 3 = [1 / 3, 2 / 3, 2 / 3, 1 / 3, 2, 3 / 44]"
proof -
  have a: "a0_const_1 C_4x4 = 4" "a0_const_2 C_4x4 = 4"
    by (simp_all add: C_4x4_def surface_set_coefficients_def surface_set_offset_def
        surface_set_grid_parameters_def C_memset_def Let_def)
  define b where "b = surface_solve_Briggs_coefficients C_4x4 1 1 3"
  have h: "length b = 6 \<and> b ! 0 = (1\<^sup>2 + 2 * 1 * 1 + 1 - 1\<^sup>2 - 1) / 6
    \<and> b ! 1 = 2 * (1 - 1 + 1) / (1 + 1 + 1)
    \<and> b ! 2 = 2 * (1 - 1 + 1) / (1 + 1 + 1)
    \<and> b ! 3 = (- (1\<^sup>2) + 2 * 1 * 1 - 1 + 1\<^sup>2 + 1) / 6
    \<and> b ! 4 = (4 / 6) * 3
    \<and> b ! 5 = 1 / (a0_const_1 C_4x4 + a0_const_2 C_4x4 * (b ! 0 + b ! 1 + b ! 2 + b ! 3 + 4 / 6))"
    by (rule Briggs_coefficients_stored [of 1 1 6 b C_4x4 3]) (simp_all add: b_def)
  have b0: "b ! 0 = 1 / 3" and b1: "b ! 1 = 2 / 3" and b2: "b ! 2 = 2 / 3" and b3: "b ! 3 = 1 / 3"
    and b4: "b ! 4 = 2" and len: "length b = 6"
    using h by simp_all
  have b5: "b ! 5 = 3 / 44"
    using h unfolding a b0 b1 b2 b3 by simp
  have "b = [1 / 3, 2 / 3, 2 / 3, 1 / 3, 2, 3 / 44]"
    using b0 b1 b2 b3 b4 b5 len
    by (auto simp: list_eq_iff_nth_eq less_Suc_eq numeral_eq_Suc)
  then show ?thesis by (simp add: b_def)
qed

subsection \<open>Division safety of the Briggs solver\<close>

text \<open>
  C10. \<open>surface_find_nearest_constraint\<close> hands a datum to
  \<open>surface_solve_Briggs_coefficients\<close> only on the branch where it is not "really
  close", that is where \<open>max \<bar>dx\<bar> \<bar>dy\<bar> \<ge> 0.05\<close>; the reflected offsets then satisfy
  \<open>xx \<ge> 0\<close>, \<open>yy \<ge> 0\<close> and \<open>xx + yy \<ge> 0.05\<close>, so both divisors \<open>xx + yy\<close> and
  \<open>1 + xx + yy\<close> of the solver are strictly positive.
\<close>

theorem Briggs_division_safe:
  assumes "\<not> really_close dx dy" and "surface_quadrant dx dy = (q, xx, yy)"
  shows "max \<bar>dx\<bar> \<bar>dy\<bar> \<ge> 5 / 100 \<and> 0 \<le> xx \<and> 0 \<le> yy \<and> xx + yy \<ge> 5 / 100
    \<and> 0 < xx + yy \<and> 0 < 1 + xx + yy \<and> q \<in> {1, 2, 3, 4}"
  using assms
  by (auto simp: really_close_def surface_quadrant_def SURFACE_CLOSENESS_FACTOR_def
      SURFACE_DATA_IS_IN_QUAD1_def SURFACE_DATA_IS_IN_QUAD2_def SURFACE_DATA_IS_IN_QUAD3_def
      SURFACE_DATA_IS_IN_QUAD4_def split: if_splits)

theorem Briggs_division_safe_witness:
  "\<not> really_close (- 3 / 10) (1 / 50) \<and> surface_quadrant (- 3 / 10) (1 / 50) = (2, 1 / 50, 3 / 10)
   \<and> (0::real) < 1 / 50 + 3 / 10"
  using Briggs_division_safe [of "- 3 / 10" "1 / 50" 2 "1 / 50" "3 / 10"]
  by (simp add: really_close_def surface_quadrant_def SURFACE_CLOSENESS_FACTOR_def
      SURFACE_DATA_IS_IN_QUAD2_def)

subsection \<open>Termination and sweep count of surface_iterate\<close>






subsection \<open>The curvature report\<close>

text \<open>
  C7. The claim reads: the curvature reported after stride-1 convergence is the sum over
  the interior nodes of \<open>(u[E1] + u[W1] + u[N1] + u[S1] - 4 u[center])\<^sup>2\<close>. The source
  subtracts \<open>4 u[E1]\<close> instead of four times the value at the node itself: on the grid
  \<open>C_ridges\<close> it reports 672, while the sum of the claim is 32.
\<close>

theorem curvature_report_on_ridges:
  "surface_check_errors_curvature C_ridges = 672 \<and> curvature_spec C_ridges = 32"
  by code_simp

subsection \<open>Second-order boundary condition on the south and north edges\<close>

lemma node_inj:
  assumes "- 2 \<le> c" "c < M - 2" "- 2 \<le> c'" "c' < M - 2"
  shows "row_col_to_node r c M = row_col_to_node r' c' M \<longleftrightarrow> r = r' \<and> c = c'"
proof
  assume eq: "row_col_to_node r c M = row_col_to_node r' c' M"
  have M: "0 < M" using assms by linarith
  have e: "(r + 2) * M + (c + 2) = (r' + 2) * M + (c' + 2)"
    using eq by (simp add: row_col_to_node_def)
  have d: "((r + 2) * M + (c + 2)) div M = r + 2" "((r' + 2) * M + (c' + 2)) div M = r' + 2"
    using assms M by (simp_all add: div_pos_pos_trivial)
  have "((r + 2) * M + (c + 2)) div M = ((r' + 2) * M + (c' + 2)) div M"
    by (rule arg_cong [OF e])
  then have r: "r = r'" unfolding d by simp
  with e have "c = c'" by simp
  with r show "r = r' \<and> c = c'" by simp
qed simp

text \<open>The geometry left by the three set-up functions.\<close>

lemma geometry:
  assumes "C = surface_set_coefficients (surface_set_offset (surface_set_grid_parameters C0))"
  shows "current_mx C = current_nx C + 4"
    and "node_nw_corner C = row_col_to_node 0 0 (current_mx C)"
    and "node_sw_corner C = row_col_to_node (current_ny C - 1) 0 (current_mx C)"
    and "node_ne_corner C = row_col_to_node 0 (current_nx C - 1) (current_mx C)"
    and "node_se_corner C = row_col_to_node (current_ny C - 1) (current_nx C - 1) (current_mx C)"
    and "eps_m2 C = 1 / (alpha C0 * alpha C0)"
    and "two_plus_em2 C = 2 + 2 * eps_m2 C"
    and "eps_p2 C = alpha C0 * alpha C0"
    and "two_plus_ep2 C = 2 + 2 * eps_p2 C"
    and "alpha C = alpha C0"
  unfolding assms
  by (simp_all add: surface_set_coefficients_def surface_set_offset_def
      surface_set_grid_parameters_def Let_def row_col_to_node_def algebra_simps)

lemma offsets:
  assumes "C = surface_set_coefficients (surface_set_offset (surface_set_grid_parameters C0))"
  shows "offset C N2 = - 2 * current_mx C" "offset C NW = - current_mx C - 1"
    "offset C N1 = - current_mx C" "offset C NE = - current_mx C + 1"
    "offset C W2 = - 2" "offset C W1 = - 1" "offset C E1 = 1" "offset C E2 = 2"
    "offset C SW = current_mx C - 1" "offset C S1 = current_mx C"
    "offset C SE = current_mx C + 1" "offset C S2 = 2 * current_mx C"
  unfolding assms
  by (simp_all add: surface_set_coefficients_def surface_set_offset_def
      surface_set_grid_parameters_def Let_def)

lemma foldl_frame:
  assumes "\<And>v j. j \<in> set xs \<Longrightarrow> f v j a = v a"
  shows "foldl f u xs a = u a"
  using assms by (induction xs arbitrary: u) simp_all

lemma foldl_target:
  assumes "c \<in> set xs" and "distinct xs"
    and agree: "\<forall>a\<in>R. v a = u a"
    and step_c: "\<And>w. \<forall>a\<in>R. w a = u a \<Longrightarrow> f w c t = val"
    and frameR: "\<And>w j a. j \<in> set xs \<Longrightarrow> j \<noteq> c \<Longrightarrow> a \<in> R \<Longrightarrow> f w j a = w a"
    and frameT: "\<And>w j. j \<in> set xs \<Longrightarrow> j \<noteq> c \<Longrightarrow> f w j t = w t"
  shows "foldl f v xs t = val"
  using assms(1-3,5,6)
proof (induction xs arbitrary: v)
  case Nil
  then show ?case by simp
next
  case (Cons x xs)
  show ?case
  proof (cases "x = c")
    case True
    have "foldl f (f v c) xs t = f v c t"
      using Cons.prems(2,5) True by (intro foldl_frame) auto
    also have "\<dots> = val" using Cons.prems(3) by (rule step_c)
    finally show ?thesis using True by simp
  next
    case False
    have "\<forall>a\<in>R. f v x a = u a"
      using Cons.prems(3,4) False by simp
    then have "foldl f (f v x) xs t = val"
      using Cons.prems False by (intro Cons.IH) auto
    then show ?thesis by simp
  qed
qed


lemma edge_targets:
  assumes geo: "C = surface_set_coefficients (surface_set_offset (surface_set_grid_parameters C0))"
  shows "node_sw_corner C + j + offset C S2 = row_col_to_node (current_ny C + 1) j (current_mx C)"
    "node_nw_corner C + j + offset C N2 = row_col_to_node (- 2) j (current_mx C)"
    "node_nw_corner C + row * current_mx C + offset C W2 = row_col_to_node row (- 2) (current_mx C)"
    "node_ne_corner C + row * current_mx C + offset C E2
       = row_col_to_node row (current_nx C + 1) (current_mx C)"
  unfolding geometry(2-5) [OF geo] offsets [OF geo]
  by (simp_all add: row_col_to_node_def algebra_simps)

lemma BC2_SN_step_frame:
  assumes geo: "C = surface_set_coefficients (surface_set_offset (surface_set_grid_parameters C0))"
    and "a \<noteq> row_col_to_node (current_ny C + 1) j (current_mx C)"
    and "a \<noteq> row_col_to_node (- 2) j (current_mx C)"
  shows "BC2_south_north C w j a = w a"
  unfolding BC2_south_north_def Let_def edge_targets [OF geo]
  using assms(2,3) by simp

lemma BC2_WE_step_frame:
  assumes geo: "C = surface_set_coefficients (surface_set_offset (surface_set_grid_parameters C0))"
    and "a \<noteq> row_col_to_node row (- 2) (current_mx C)"
    and "a \<noteq> row_col_to_node row (current_nx C + 1) (current_mx C)"
  shows "BC2_west_east C w row a = w a"
  unfolding BC2_west_east_def Let_def edge_targets [OF geo]
  using assms(2,3) by simp


lemma c_range_distinct: "distinct (c_range n)"
  unfolding c_range_def by (simp add: distinct_map inj_on_def)

lemma c_range_mem: "c \<in> set (c_range n) \<longleftrightarrow> 0 \<le> c \<and> c < n"
proof
  assume "c \<in> set (c_range n)"
  then show "0 \<le> c \<and> c < n" unfolding c_range_def by auto
next
  assume "0 \<le> c \<and> c < n"
  then have "nat c \<in> set [0..<nat n]" "int (nat c) = c" by simp_all
  then show "c \<in> set (c_range n)" unfolding c_range_def by (metis imageI set_map)
qed

lemma BC2_south_value_A:
  assumes geo: "C = surface_set_coefficients (surface_set_offset (surface_set_grid_parameters C0))"
  shows "BC2_south_value C u (node_sw_corner C + c) =
     u (row_col_to_node (current_ny C - 3) c (current_mx C))
     + eps_m2 C * (u (row_col_to_node (current_ny C - 2) (c - 1) (current_mx C))
                   + u (row_col_to_node (current_ny C - 2) (c + 1) (current_mx C))
                   - u (row_col_to_node (current_ny C) (c - 1) (current_mx C))
                   - u (row_col_to_node (current_ny C) (c + 1) (current_mx C)))
     + two_plus_em2 C * (u (row_col_to_node (current_ny C) c (current_mx C))
                         - u (row_col_to_node (current_ny C - 2) c (current_mx C)))"
  unfolding BC2_south_value_def Let_def geometry(2-5) [OF geo] offsets [OF geo]
  by (simp add: row_col_to_node_def algebra_simps)

lemma BC2_north_value_A:
  assumes geo: "C = surface_set_coefficients (surface_set_offset (surface_set_grid_parameters C0))"
  shows "BC2_north_value C u (node_nw_corner C + c) =
     u (row_col_to_node 2 c (current_mx C))
     + eps_m2 C * (u (row_col_to_node 1 (c - 1) (current_mx C))
                   + u (row_col_to_node 1 (c + 1) (current_mx C))
                   - u (row_col_to_node (- 1) (c - 1) (current_mx C))
                   - u (row_col_to_node (- 1) (c + 1) (current_mx C)))
     + two_plus_em2 C * (u (row_col_to_node (- 1) c (current_mx C))
                         - u (row_col_to_node 1 c (current_mx C)))"
  unfolding BC2_north_value_def Let_def geometry(2-5) [OF geo] offsets [OF geo]
  by (simp add: row_col_to_node_def algebra_simps)


lemma BC2_loops_south:
  assumes geo: "C = surface_set_coefficients (surface_set_offset (surface_set_grid_parameters C0))"
    and ny: "2 \<le> current_ny C" and c: "0 \<le> c" "c < current_nx C"
    and ud: "ud = foldl (BC2_south_north C) uc (c_range (current_nx C))"
    and ue: "ue = foldl (BC2_west_east C) ud (c_range (current_ny C))"
  shows "ue (node_sw_corner C + c + offset C S2) = BC2_south_value C ue (node_sw_corner C + c)"
proof -
  let ?M = "current_mx C"
  let ?ny = "current_ny C"
  let ?A = "\<lambda>r c. row_col_to_node r c ?M"
  let ?T = "?A (?ny + 1) c"
  let ?R = "{?A (?ny - 3) c, ?A (?ny - 2) (c - 1), ?A (?ny - 2) (c + 1), ?A ?ny (c - 1),
             ?A ?ny (c + 1), ?A ?ny c, ?A (?ny - 2) c}"
  have M: "?M = current_nx C + 4" by (rule geometry(1) [OF geo])
  note inj = node_inj
  have cong: "BC2_south_value C w (node_sw_corner C + c) = BC2_south_value C v (node_sw_corner C + c)"
    if "\<forall>a\<in>?R. w a = v a" for w v
    unfolding BC2_south_value_A [OF geo] using that by simp
  have frameSN: "BC2_south_north C w j a = w a" if "j \<in> set (c_range (current_nx C))" "a \<in> ?R" for w j a
  proof (rule BC2_SN_step_frame [OF geo])
    have j: "0 \<le> j" "j < current_nx C" using that(1) by (simp_all add: c_range_mem)
    show "a \<noteq> ?A (?ny + 1) j" using that(2) j c M ny by (auto simp: inj)
    show "a \<noteq> ?A (- 2) j" using that(2) j c M ny by (auto simp: inj)
  qed
  have frameWE: "BC2_west_east C w row a = w a" if "a \<in> insert ?T ?R" for w row a
  proof (rule BC2_WE_step_frame [OF geo])
    show "a \<noteq> ?A row (- 2)" using that c M ny by (auto simp: inj)
    show "a \<noteq> ?A row (current_nx C + 1)" using that c M ny by (auto simp: inj)
  qed
  have ue_ud: "ue a = ud a" if "a \<in> insert ?T ?R" for a
    unfolding ue using that by (intro foldl_frame frameWE)
  have ud_uc: "ud a = uc a" if "a \<in> ?R" for a
    unfolding ud using that by (intro foldl_frame frameSN)
  have "foldl (BC2_south_north C) uc (c_range (current_nx C)) ?T
        = BC2_south_value C uc (node_sw_corner C + c)"
  proof (rule foldl_target [where R = ?R and c = c and u = uc])
    show "c \<in> set (c_range (current_nx C))" using c by (simp add: c_range_mem)
    show "distinct (c_range (current_nx C))" by (rule c_range_distinct)
    show "\<forall>a\<in>?R. uc a = uc a" by simp
    show "BC2_south_north C w c ?T = BC2_south_value C uc (node_sw_corner C + c)"
      if "\<forall>a\<in>?R. w a = uc a" for w
    proof -
      have "BC2_south_north C w c ?T = BC2_south_value C w (node_sw_corner C + c)"
        unfolding BC2_south_north_def Let_def edge_targets [OF geo]
        using c M ny by (simp add: inj)
      then show ?thesis using cong [OF that] by simp
    qed
    show "BC2_south_north C w j a = w a"
      if "j \<in> set (c_range (current_nx C))" "j \<noteq> c" "a \<in> ?R" for w j a
      using that(1,3) by (rule frameSN)
    show "BC2_south_north C w j ?T = w ?T" if "j \<in> set (c_range (current_nx C))" "j \<noteq> c" for w j
    proof (rule BC2_SN_step_frame [OF geo])
      have j: "0 \<le> j" "j < current_nx C" using that(1) by (simp_all add: c_range_mem)
      show "?T \<noteq> ?A (?ny + 1) j" using that(2) j c M by (simp add: inj)
      show "?T \<noteq> ?A (- 2) j" using j c M ny by (simp add: inj)
    qed
  qed
  then have "ud ?T = BC2_south_value C uc (node_sw_corner C + c)" unfolding ud .
  moreover have "BC2_south_value C ue (node_sw_corner C + c) = BC2_south_value C uc (node_sw_corner C + c)"
    by (rule cong) (use ue_ud ud_uc in auto)
  moreover have "ue ?T = ud ?T" by (rule ue_ud) simp
  ultimately show ?thesis unfolding edge_targets [OF geo] by simp
qed


lemma BC2_loops_north:
  assumes geo: "C = surface_set_coefficients (surface_set_offset (surface_set_grid_parameters C0))"
    and ny: "2 \<le> current_ny C" and c: "0 \<le> c" "c < current_nx C"
    and ud: "ud = foldl (BC2_south_north C) uc (c_range (current_nx C))"
    and ue: "ue = foldl (BC2_west_east C) ud (c_range (current_ny C))"
  shows "ue (node_nw_corner C + c + offset C N2) = BC2_north_value C ue (node_nw_corner C + c)"
proof -
  let ?M = "current_mx C"
  let ?ny = "current_ny C"
  let ?A = "\<lambda>r c. row_col_to_node r c ?M"
  let ?T = "?A (- 2) c"
  let ?R = "{?A 2 c, ?A 1 (c - 1), ?A 1 (c + 1), ?A (- 1) (c - 1),
             ?A (- 1) (c + 1), ?A (- 1) c, ?A 1 c}"
  have M: "?M = current_nx C + 4" by (rule geometry(1) [OF geo])
  note inj = node_inj
  have cong: "BC2_north_value C w (node_nw_corner C + c) = BC2_north_value C v (node_nw_corner C + c)"
    if "\<forall>a\<in>?R. w a = v a" for w v
    unfolding BC2_north_value_A [OF geo] using that by simp
  have frameSN: "BC2_south_north C w j a = w a" if "j \<in> set (c_range (current_nx C))" "a \<in> ?R" for w j a
  proof (rule BC2_SN_step_frame [OF geo])
    have j: "0 \<le> j" "j < current_nx C" using that(1) by (simp_all add: c_range_mem)
    show "a \<noteq> ?A (?ny + 1) j" using that(2) j c M ny by (auto simp: inj)
    show "a \<noteq> ?A (- 2) j" using that(2) j c M ny by (auto simp: inj)
  qed
  have frameWE: "BC2_west_east C w row a = w a" if "a \<in> insert ?T ?R" for w row a
  proof (rule BC2_WE_step_frame [OF geo])
    show "a \<noteq> ?A row (- 2)" using that c M ny by (auto simp: inj)
    show "a \<noteq> ?A row (current_nx C + 1)" using that c M ny by (auto simp: inj)
  qed
  have ue_ud: "ue a = ud a" if "a \<in> insert ?T ?R" for a
    unfolding ue using that by (intro foldl_frame frameWE)
  have ud_uc: "ud a = uc a" if "a \<in> ?R" for a
    unfolding ud using that by (intro foldl_frame frameSN)
  have "foldl (BC2_south_north C) uc (c_range (current_nx C)) ?T
        = BC2_north_value C uc (node_nw_corner C + c)"
  proof (rule foldl_target [where R = ?R and c = c and u = uc])
    show "c \<in> set (c_range (current_nx C))" using c by (simp add: c_range_mem)
    show "distinct (c_range (current_nx C))" by (rule c_range_distinct)
    show "\<forall>a\<in>?R. uc a = uc a" by simp
    show "BC2_south_north C w c ?T = BC2_north_value C uc (node_nw_corner C + c)"
      if "\<forall>a\<in>?R. w a = uc a" for w
    proof -
      let ?w1 = "w(?A (?ny + 1) c := BC2_south_value C w (node_sw_corner C + c))"
      have "BC2_south_north C w c ?T = BC2_north_value C ?w1 (node_nw_corner C + c)"
        unfolding BC2_south_north_def Let_def edge_targets [OF geo] by simp
      moreover have "\<forall>a\<in>?R. ?w1 a = uc a"
        using that c M ny by (auto simp: inj)
      ultimately show ?thesis using cong [of ?w1 uc] by simp
    qed
    show "BC2_south_north C w j a = w a"
      if "j \<in> set (c_range (current_nx C))" "j \<noteq> c" "a \<in> ?R" for w j a
      using that(1,3) by (rule frameSN)
    show "BC2_south_north C w j ?T = w ?T" if "j \<in> set (c_range (current_nx C))" "j \<noteq> c" for w j
    proof (rule BC2_SN_step_frame [OF geo])
      have j: "0 \<le> j" "j < current_nx C" using that(1) by (simp_all add: c_range_mem)
      show "?T \<noteq> ?A (?ny + 1) j" using j c M ny by (simp add: inj)
      show "?T \<noteq> ?A (- 2) j" using that(2) j c M ny by (simp add: inj)
    qed
  qed
  then have "ud ?T = BC2_north_value C uc (node_nw_corner C + c)" unfolding ud .
  moreover have "BC2_north_value C ue (node_nw_corner C + c) = BC2_north_value C uc (node_nw_corner C + c)"
    by (rule cong) (use ue_ud ud_uc in auto)
  moreover have "ue ?T = ud ?T" by (rule ue_ud) simp
  ultimately show ?thesis unfolding edge_targets [OF geo] by simp
qed

text \<open>
  C6. The claim reads: after \<open>surface_set_BCs\<close> on a non-periodic grid, for every interior
  column \<open>u[S2] = u[N2] + eps_m2 (u[NW] + u[NE] - u[SW] - u[SE]) + (2 + eps_m2) (u[S1] - u[N1])\<close>
  with \<open>eps_m2 = 1 / \<alpha>\<^sup>2\<close>, and the analogous relation on the north edge. The source
  multiplies the last difference by \<open>two_plus_em2 = 2 + 2 eps_m2\<close>. What holds, for a grid
  of at least two rows set up by the three set-up functions: for every interior column
  \<open>u[S2] = u[N2] + eps_m2 (u[NW] + u[NE] - u[SW] - u[SE]) + (2 + 2 eps_m2) (u[S1] - u[N1])\<close>
  with \<open>eps_m2 = 1 / \<alpha>\<^sup>2\<close>, and on the north edge
  \<open>u[N2] = u[S2] + eps_m2 (u[SW] + u[SE] - u[NW] - u[NE]) + (2 + 2 eps_m2) (u[N1] - u[S1])\<close>.
\<close>

theorem BC2_south_north_hold:
  assumes "C = surface_set_coefficients (surface_set_offset (surface_set_grid_parameters C0))"
    and "2 \<le> current_ny C" and "0 \<le> col" and "col < current_nx C"
    and "u' = surface_set_BCs C u"
    and "n_s = node_sw_corner C + col" and "n_n = node_nw_corner C + col"
    and "d = offset C"
  shows "eps_m2 C = 1 / (alpha C)\<^sup>2
    \<and> u' (n_s + d S2) =
        u' (n_s + d N2)
        + eps_m2 C * (u' (n_s + d NW) + u' (n_s + d NE) - u' (n_s + d SW) - u' (n_s + d SE))
        + (2 + 2 * eps_m2 C) * (u' (n_s + d S1) - u' (n_s + d N1))
    \<and> u' (n_n + d N2) =
        u' (n_n + d S2)
        + eps_m2 C * (u' (n_n + d SW) + u' (n_n + d SE) - u' (n_n + d NW) - u' (n_n + d NE))
        + (2 + 2 * eps_m2 C) * (u' (n_n + d N1) - u' (n_n + d S1))"
proof -
  note geo = assms(1)
  obtain uc where u': "u' = foldl (BC2_west_east C)
      (foldl (BC2_south_north C) uc (c_range (current_nx C))) (c_range (current_ny C))"
    unfolding assms(5) surface_set_BCs_def Let_def by blast
  have s: "u' (n_s + d S2) = BC2_south_value C u' n_s"
    unfolding assms(6,8) by (rule BC2_loops_south [OF geo assms(2-4) refl u'])
  have n: "u' (n_n + d N2) = BC2_north_value C u' n_n"
    unfolding assms(7,8) by (rule BC2_loops_north [OF geo assms(2-4) refl u'])
  have e: "eps_m2 C = 1 / (alpha C)\<^sup>2"
    using geometry(6,10) [OF geo] by (simp add: power2_eq_square)
  show ?thesis
    using s n e unfolding BC2_south_value_def BC2_north_value_def Let_def
      geometry(7) [OF geo] assms(8) by simp
qed

theorem BC2_south_north_hold_witness:
  "2 \<le> current_ny C_4x4 \<and> (0::int) \<le> 1 \<and> 1 < current_nx C_4x4
   \<and> surface_set_BCs C_4x4 (Grid_data C_terraces) (node_sw_corner C_4x4 + 1 + offset C_4x4 S2)
     = surface_set_BCs C_4x4 (Grid_data C_terraces) (node_sw_corner C_4x4 + 1 + offset C_4x4 N2)
       + eps_m2 C_4x4 *
         (surface_set_BCs C_4x4 (Grid_data C_terraces) (node_sw_corner C_4x4 + 1 + offset C_4x4 NW)
          + surface_set_BCs C_4x4 (Grid_data C_terraces) (node_sw_corner C_4x4 + 1 + offset C_4x4 NE)
          - surface_set_BCs C_4x4 (Grid_data C_terraces) (node_sw_corner C_4x4 + 1 + offset C_4x4 SW)
          - surface_set_BCs C_4x4 (Grid_data C_terraces) (node_sw_corner C_4x4 + 1 + offset C_4x4 SE))
       + (2 + 2 * eps_m2 C_4x4) *
         (surface_set_BCs C_4x4 (Grid_data C_terraces) (node_sw_corner C_4x4 + 1 + offset C_4x4 S1)
          - surface_set_BCs C_4x4 (Grid_data C_terraces) (node_sw_corner C_4x4 + 1 + offset C_4x4 N1))"
proof -
  have f: "current_ny C_4x4 = 4" "current_nx C_4x4 = 4"
    by (simp_all add: C_4x4_def surface_set_coefficients_def surface_set_offset_def
        surface_set_grid_parameters_def C_memset_def Let_def c_div_def)
  have h: "2 \<le> current_ny C_4x4" "(0::int) \<le> 1" "1 < current_nx C_4x4"
    using f by simp_all
  show ?thesis
    using h BC2_south_north_hold [OF C_4x4_def h refl refl refl refl, of "Grid_data C_terraces"]
    by simp
qed

text \<open>
  On the non-periodic grid \<open>C_terraces\<close> (aspect ratio 1, so \<open>eps_m2 = 1\<close>) the relation of
  the claim, with the factor \<open>2 + eps_m2\<close>, fails in column 1 of the south edge: the
  ghost node holds 7, the right-hand side of the claim is 3.
\<close>

theorem BC2_south_spec_fails:
  "\<not> periodic C_terraces \<and> eps_m2 C_terraces = 1 / (alpha C_terraces)\<^sup>2
   \<and> surface_set_BCs C_terraces (Grid_data C_terraces)
        (node_sw_corner C_terraces + 1 + offset C_terraces S2)
      \<noteq> BC2_south_spec C_terraces (surface_set_BCs C_terraces (Grid_data C_terraces))
          (node_sw_corner C_terraces + 1)"
  by code_simp

subsection \<open>Densification of breaklines\<close>

lemma c_lrint_ge: "\<lceil>v\<rceil> - 1 \<le> c_lrint v"
proof -
  have "\<lceil>v\<rceil> \<le> \<lfloor>v\<rfloor> + 1" by (simp add: ceiling_le_iff)
  moreover have "\<lfloor>v\<rfloor> \<le> c_lrint v" unfolding c_lrint_def Let_def by simp
  ultimately show ?thesis by linarith
qed

lemma c_lrint_nonneg: "0 \<le> v \<Longrightarrow> 0 \<le> c_lrint v"
  unfolding c_lrint_def Let_def by simp

lemma hypot_nonneg: "0 \<le> hypot a b"
  unfolding hypot_def by simp

lemma n_int_pos:
  assumes "0 \<le> r_inc_x C" "0 \<le> r_inc_y C"
  shows "1 \<le> n_int C v w"
proof -
  obtain x0 y0 z0 x1 y1 z1 where vw: "v = (x0, y0, z0)" "w = (x1, y1, z1)"
    by (metis prod_cases3)
  have "0 \<le> hypot (x1 - x0) (y1 - y0) * max (r_inc_x C) (r_inc_y C)"
    using assms hypot_nonneg by (intro mult_nonneg_nonneg) auto
  then show ?thesis unfolding n_int_def vw by (simp add: c_lrint_nonneg)
qed

lemma interpolate_breakline_decomp:
  "\<exists>before. interpolate_breakline C fz zl (pre @ v # w # post)
     = before @ interpolate_edge C fz zl v w @ interpolate_breakline C fz zl (w # post)"
proof (induction pre)
  case Nil
  show ?case by (simp add: exI [of _ "[]"])
next
  case (Cons p pre)
  then obtain before where b: "interpolate_breakline C fz zl (pre @ v # w # post)
     = before @ interpolate_edge C fz zl v w @ interpolate_breakline C fz zl (w # post)" by blast
  obtain q rest where q: "pre @ v # w # post = q # rest" by (cases pre) auto
  have "interpolate_breakline C fz zl ((p # pre) @ v # w # post)
      = interpolate_edge C fz zl p q @ interpolate_breakline C fz zl (pre @ v # w # post)"
    using q by simp
  then show ?case using b by (intro exI [of _ "interpolate_edge C fz zl p q @ before"]) simp
qed

lemma interpolate_breakline_head:
  assumes "0 \<le> r_inc_x C" "0 \<le> r_inc_y C"
  shows "\<exists>rest. interpolate_breakline C fz zl (w # post)
     = (fst w, fst (snd w), if fz then zl else snd (snd w)) # rest"
proof (cases post)
  case Nil
  then show ?thesis by simp
next
  case (Cons w2 post')
  have "1 \<le> n_int C w w2" by (rule n_int_pos [OF assms])
  then obtain k where k: "nat (n_int C w w2) = Suc k" by (cases "nat (n_int C w w2)") auto
  have "c_range (n_int C w w2) = 0 # map int [1..<Suc k]"
    unfolding c_range_def k by (simp add: upt_rec)
  moreover have "edge_sample C fz zl w w2 0 = (fst w, fst (snd w), if fz then zl else snd (snd w))"
    unfolding edge_sample_def by (cases w; cases w2) simp
  ultimately show ?thesis unfolding Cons by (simp add: interpolate_edge_def)
qed

lemma edge_sample_end:
  assumes "1 \<le> n_int C v w"
  shows "edge_sample C fz zl v w (n_int C v w) = (fst w, fst (snd w), if fz then zl else snd (snd w))"
proof -
  have "(of_int (n_int C v w) :: real) \<noteq> 0" using assms by simp
  then show ?thesis unfolding edge_sample_def by (cases v; cases w) (simp add: Let_def)
qed

lemma c_range_Suc: "0 \<le> n \<Longrightarrow> c_range (n + 1) = c_range n @ [n]"
  unfolding c_range_def by (simp add: nat_add_distrib)

text \<open>
  C8. For two consecutive breakline vertices with separation \<open>(\<Delta>x, \<Delta>y)\<close>, the densified
  line carries, from the first vertex to the second inclusive, a run of equally spaced
  samples on that edge; their number is \<open>lrint (hypot \<Delta>x \<Delta>y * max (1/dx) (1/dy)) + 2\<close>, which
  is at least \<open>ceil (hypot \<Delta>x \<Delta>y * max (1/dx) (1/dy)) + 1\<close>, where \<open>dx\<close>, \<open>dy\<close> are the grid
  increments. (The loop writes \<open>n_int = lrint \<dots> + 1\<close> of them; the sample on the second
  vertex is the first one of the next edge, or the closing vertex of the segment.)
\<close>

theorem breakline_edge_samples:
  assumes "0 < inc_x C" and "0 < inc_y C"
    and "r_inc_x C = 1 / inc_x C" and "r_inc_y C = 1 / inc_y C"
    and "line = pre @ (x0, y0, z0) # (x1, y1, z1) # post"
    and "samples = map (edge_sample C fix_z z_level (x0, y0, z0) (x1, y1, z1))
                       (c_range (n_int C (x0, y0, z0) (x1, y1, z1) + 1))"
  shows "(\<exists>before after. interpolate_breakline C fix_z z_level line = before @ samples @ after)
    \<and> hd samples = (x0, y0, if fix_z then z_level else z0)
    \<and> last samples = (x1, y1, if fix_z then z_level else z1)
    \<and> int (length samples) = c_lrint (hypot (x1 - x0) (y1 - y0) * max (1 / inc_x C) (1 / inc_y C)) + 2
    \<and> int (length samples) \<ge> \<lceil>hypot (x1 - x0) (y1 - y0) * max (1 / inc_x C) (1 / inc_y C)\<rceil> + 1"
proof -
  let ?v = "(x0, y0, z0)" and ?w = "(x1, y1, z1)"
  let ?n = "n_int C ?v ?w"
  have r: "0 \<le> r_inc_x C" "0 \<le> r_inc_y C" using assms(1-4) by simp_all
  have n1: "1 \<le> ?n" by (rule n_int_pos [OF r])
  have n: "?n = c_lrint (hypot (x1 - x0) (y1 - y0) * max (1 / inc_x C) (1 / inc_y C)) + 1"
    unfolding n_int_def assms(3,4) by simp
  have s: "samples = interpolate_edge C fix_z z_level ?v ?w @ [(x1, y1, if fix_z then z_level else z1)]"
    unfolding assms(6) interpolate_edge_def using n1 edge_sample_end [OF n1, of fix_z z_level]
    by (simp add: c_range_Suc)
  obtain before where b: "interpolate_breakline C fix_z z_level line
      = before @ interpolate_edge C fix_z z_level ?v ?w @ interpolate_breakline C fix_z z_level (?w # post)"
    unfolding assms(5) using interpolate_breakline_decomp by blast
  obtain rest where h: "interpolate_breakline C fix_z z_level (?w # post)
      = (x1, y1, if fix_z then z_level else z1) # rest"
    using interpolate_breakline_head [OF r, of fix_z z_level ?w post] by auto
  have 1: "\<exists>before after. interpolate_breakline C fix_z z_level line = before @ samples @ after"
    unfolding b h s by (intro exI [of _ before] exI [of _ rest]) simp
  have len: "int (length samples) = ?n + 1"
    unfolding assms(6) c_range_def using n1 by simp
  have 4: "int (length samples)
      = c_lrint (hypot (x1 - x0) (y1 - y0) * max (1 / inc_x C) (1 / inc_y C)) + 2"
    using len n by simp
  have 5: "int (length samples) \<ge> \<lceil>hypot (x1 - x0) (y1 - y0) * max (1 / inc_x C) (1 / inc_y C)\<rceil> + 1"
    using 4 c_lrint_ge [of "hypot (x1 - x0) (y1 - y0) * max (1 / inc_x C) (1 / inc_y C)"] by linarith
  obtain k where k: "nat ?n = Suc k" using n1 by (cases "nat ?n") auto
  have "c_range (?n + 1) = 0 # map int [1..<Suc (Suc k)]"
    unfolding c_range_def using n1 k by (simp add: nat_add_distrib upt_rec)
  then have 2: "hd samples = (x0, y0, if fix_z then z_level else z0)"
    unfolding assms(6) by (simp add: edge_sample_def)
  have 3: "last samples = (x1, y1, if fix_z then z_level else z1)"
    unfolding s by simp
  show ?thesis using 1 2 3 4 5 by blast
qed


theorem breakline_edge_samples_witness:
  "0 < inc_x C_4x4 \<and> 0 < inc_y C_4x4
   \<and> r_inc_x C_4x4 = 1 / inc_x C_4x4 \<and> r_inc_y C_4x4 = 1 / inc_y C_4x4
   \<and> n_int C_4x4 (0, 0, 5) (6 / 5, 0, 10) = 2
   \<and> \<lceil>hypot (6 / 5 - 0) (0 - 0) * max (1 / inc_x C_4x4) (1 / inc_y C_4x4)\<rceil> + 1
       \<le> int (length (map (edge_sample C_4x4 False 0 (0, 0, 5) (6 / 5, 0, 10))
                         (c_range (n_int C_4x4 (0, 0, 5) (6 / 5, 0, 10) + 1))))"
proof -
  have f: "inc_x C_4x4 = 1" "inc_y C_4x4 = 1" "r_inc_x C_4x4 = 1" "r_inc_y C_4x4 = 1"
    by (simp_all add: C_4x4_def surface_set_coefficients_def surface_set_offset_def
        surface_set_grid_parameters_def C_memset_def Let_def)
  have h: "hypot (6 / 5) 0 = 6 / 5"
    unfolding hypot_def by (rule real_sqrt_unique) (simp_all add: power2_eq_square)
  have n: "n_int C_4x4 (0, 0, 5) (6 / 5, 0, 10) = 2"
    unfolding n_int_def by (simp add: f h c_lrint_def)
  have hyp: "0 < inc_x C_4x4" "0 < inc_y C_4x4"
    "r_inc_x C_4x4 = 1 / inc_x C_4x4" "r_inc_y C_4x4 = 1 / inc_y C_4x4"
    using f by simp_all
  show ?thesis
    using hyp n breakline_edge_samples [OF hyp refl refl, where pre = "[]" and post = "[]"
        and ?x0.0 = 0 and ?y0.0 = 0 and ?z0.0 = 5 and ?x1.0 = "6 / 5" and ?y1.0 = 0 and ?z1.0 = 10
        and fix_z = False and z_level = 0]
    by simp
qed

subsection \<open>Data on a plane\<close>

lemma c_div_one: "c_div a 1 = a"
  unfolding c_div_def by (simp add: sgn_if)

lemma restore_node_at:
  "restore_node C row u col a =
     (if a = row_col_to_node row col (current_mx C)
      then u a * z_rms C + evaluate_plane C (of_int col) (of_int (hdr_n_rows C - row - 1))
      else u a)"
proof -
  have e: "row_col_to_node row 0 (current_mx C) + col = row_col_to_node row col (current_mx C)"
    by (simp add: row_col_to_node_def)
  show ?thesis unfolding restore_node_def Let_def e by simp
qed

lemma restore_row_other:
  assumes "\<And>j. j \<in> set cols \<Longrightarrow> a \<noteq> row_col_to_node row j (current_mx C)"
  shows "foldl (restore_node C row) u cols a = u a"
  by (rule foldl_frame) (simp add: restore_node_at assms)

lemma restore_row_target:
  assumes M: "current_mx C = hdr_n_columns C + 4"
    and c: "0 \<le> c" "c < hdr_n_columns C"
  shows "foldl (restore_node C row) u (c_range (hdr_n_columns C)) (row_col_to_node row c (current_mx C))
     = u (row_col_to_node row c (current_mx C)) * z_rms C
       + evaluate_plane C (of_int c) (of_int (hdr_n_rows C - row - 1))"
proof (rule foldl_target [where c = c and R = "{row_col_to_node row c (current_mx C)}" and u = u])
  show "c \<in> set (c_range (hdr_n_columns C))" using c by (simp add: c_range_mem)
  show "distinct (c_range (hdr_n_columns C))" by (rule c_range_distinct)
  show "\<forall>a\<in>{row_col_to_node row c (current_mx C)}. u a = u a" by simp
  show "restore_node C row w c (row_col_to_node row c (current_mx C))
      = u (row_col_to_node row c (current_mx C)) * z_rms C
        + evaluate_plane C (of_int c) (of_int (hdr_n_rows C - row - 1))"
    if "\<forall>a\<in>{row_col_to_node row c (current_mx C)}. w a = u a" for w
    using that by (simp add: restore_node_at)
  show "restore_node C row w j a = w a"
    if "j \<in> set (c_range (hdr_n_columns C))" "j \<noteq> c" "a \<in> {row_col_to_node row c (current_mx C)}"
    for w j a
    using that c M by (simp add: restore_node_at c_range_mem node_inj)
  show "restore_node C row w j (row_col_to_node row c (current_mx C))
      = w (row_col_to_node row c (current_mx C))"
    if "j \<in> set (c_range (hdr_n_columns C))" "j \<noteq> c" for w j
    using that c M by (simp add: restore_node_at c_range_mem node_inj)
qed

lemma restore_grid_value:
  assumes M: "current_mx C = hdr_n_columns C + 4"
    and c: "0 \<le> c" "c < hdr_n_columns C" and r: "0 \<le> r" "r < hdr_n_rows C"
  shows "Grid_data (surface_restore_planar_trend C) (row_col_to_node r c (current_mx C))
     = Grid_data C (row_col_to_node r c (current_mx C)) * z_rms C
       + evaluate_plane C (of_int c) (of_int (hdr_n_rows C - r - 1))"
proof -
  let ?t = "row_col_to_node r c (current_mx C)"
  let ?f = "\<lambda>u row. foldl (restore_node C row) u (c_range (hdr_n_columns C))"
  have other: "?f w j ?t = w ?t" if "j \<in> set (c_range (hdr_n_rows C))" "j \<noteq> r" for w j
  proof (rule restore_row_other)
    fix k assume "k \<in> set (c_range (hdr_n_columns C))"
    then show "?t \<noteq> row_col_to_node j k (current_mx C)"
      using that c M by (simp add: c_range_mem node_inj)
  qed
  have "foldl ?f (Grid_data C) (c_range (hdr_n_rows C)) ?t
      = Grid_data C ?t * z_rms C + evaluate_plane C (of_int c) (of_int (hdr_n_rows C - r - 1))"
  proof (rule foldl_target [where c = r and R = "{?t}" and u = "Grid_data C"])
    show "r \<in> set (c_range (hdr_n_rows C))" using r by (simp add: c_range_mem)
    show "distinct (c_range (hdr_n_rows C))" by (rule c_range_distinct)
    show "\<forall>a\<in>{?t}. Grid_data C a = Grid_data C a" by simp
    show "?f w r ?t = Grid_data C ?t * z_rms C
        + evaluate_plane C (of_int c) (of_int (hdr_n_rows C - r - 1))"
      if "\<forall>a\<in>{?t}. w a = Grid_data C a" for w
      using that restore_row_target [OF M c, of r w] by simp
    show "?f w j a = w a" if "j \<in> set (c_range (hdr_n_rows C))" "j \<noteq> r" "a \<in> {?t}" for w j a
      using other [OF that(1,2)] that(3) by simp
    show "?f w j ?t = w ?t" if "j \<in> set (c_range (hdr_n_rows C))" "j \<noteq> r" for w j
      using that by (rule other)
  qed
  then show ?thesis unfolding surface_restore_planar_trend_def by simp
qed


lemma throw_away_fields:
  "\<exists>ds. surface_throw_away_unusables qs C = C\<lparr>data := ds\<rparr>"
  unfolding surface_throw_away_unusables_def Let_def
  by (auto split: prod.splits)

lemma remove_planar_trend_fields:
  "surface_remove_planar_trend C
     = C\<lparr>plane_icept := plane_icept (surface_remove_planar_trend C),
         plane_sx := plane_sx (surface_remove_planar_trend C),
         plane_sy := plane_sy (surface_remove_planar_trend C),
         data := data (surface_remove_planar_trend C)\<rparr>"
  by (rule SURFACE_INFO.equality) (simp_all add: surface_remove_planar_trend_def Let_def)

lemma remove_planar_trend_periodic:
  "periodic C \<Longrightarrow> plane_sx (surface_remove_planar_trend C) = 0"
  by (simp add: surface_remove_planar_trend_def Let_def)

lemma rescale_planar:
  assumes "sqrt ((\<Sum>d\<leftarrow>data C. d_z d * d_z d) / of_nat (length (data C))) < 1 / 10 ^ 8"
  shows "surface_rescale_z_values C = (1, C\<lparr>z_rms := 1, r_z_rms := 1\<rparr>)"
  using assms unfolding surface_rescale_z_values_def Let_def GMT_CONV8_LIMIT_def by simp

lemma periodic_average_id:
  assumes "u (row_col_to_node row 0 (current_mx C))
         = u (row_col_to_node row 0 (current_mx C) + current_nx C - 1)"
  shows "periodic_average C u row = u"
  unfolding periodic_average_def Let_def using assms by (simp add: fun_eq_iff)

lemma periodic_average_loop_id:
  assumes "\<And>row. row \<in> set rows \<Longrightarrow>
      u (row_col_to_node row 0 (current_mx C))
      = u (row_col_to_node row 0 (current_mx C) + current_nx C - 1)"
  shows "foldl (periodic_average C) u rows = u"
  using assms by (induction rows) (simp_all add: periodic_average_id)


text \<open>
  C3. If the root-mean-square of the detrended data residuals is below \<open>1e-8\<close>, the run
  takes the planar exit: it returns \<open>GMT_NOERROR\<close> whatever the multigrid part of the
  program would do (that part, the only one that sweeps, is not entered, and the iteration
  total is unchanged), \<open>z_rms\<close> is 1, and the grid handed to the writer holds at every node
  \<open>(row, col)\<close> the fitted plane \<open>plane_icept + plane_sx col + plane_sy (n_rows - 1 - row)\<close>.
  The structure is the one \<^verbatim>\<open>surface_init_parameters\<close> leaves: its dimensions are those of
  the grid header, and no bound grid has been loaded.
\<close>

theorem planar_data_exit:
  assumes hdr: "n_columns C0 = hdr_n_columns C0" "n_rows C0 = hdr_n_rows C0"
    and nc: "\<not> constrained C0"
    and C4: "C4 = surface_remove_planar_trend (surface_throw_away_unusables qs
               ((surface_set_grid_parameters (C0\<lparr>current_stride := 1\<rparr>))\<lparr>data := input\<rparr>))"
    and rms: "sqrt ((\<Sum>d\<leftarrow>data C4. d_z d * d_z d) / of_nat (length (data C4))) < 1 / 10 ^ 8"
    and res: "GMT_surface_core qs files multigrid input C0 = (error, C')"
    and rc: "0 \<le> row" "row < hdr_n_rows C0" "0 \<le> col" "col < hdr_n_columns C0"
  shows "error = GMT_NOERROR
    \<and> (\<forall>other. GMT_surface_core qs files other input C0 = (error, C'))
    \<and> total_iterations C' = total_iterations C0
    \<and> z_rms C' = 1
    \<and> plane_icept C' = plane_icept C4 \<and> plane_sx C' = plane_sx C4 \<and> plane_sy C' = plane_sy C4
    \<and> Grid_data C' (row_col_to_node row col (hdr_n_columns C0 + 4))
        = plane_icept C' + plane_sx C' * of_int col + plane_sy C' * of_int (hdr_n_rows C0 - 1 - row)"
proof -
  define C1 where "C1 = surface_set_grid_parameters (C0\<lparr>current_stride := 1\<rparr>)"
  define C3 where "C3 = surface_throw_away_unusables qs (C1\<lparr>data := input\<rparr>)"
  obtain ds where C3': "C3 = C1\<lparr>data := ds\<rparr>"
    unfolding C3_def using throw_away_fields [of qs "C1\<lparr>data := input\<rparr>"] by auto
  have C4': "C4 = surface_remove_planar_trend C3" unfolding C4 C3_def C1_def ..
  define C5 where "C5 = C4\<lparr>z_rms := 1, r_z_rms := 1\<rparr>"
  have resc: "surface_rescale_z_values C4 = (1, C5)"
    unfolding C5_def by (rule rescale_planar [OF rms])
  define C6 where "C6 = C5\<lparr>data := [], Grid_data := (\<lambda>node. 0)\<rparr>"
  define C7 where "C7 = surface_restore_planar_trend C6"
  have g1: "current_mx C1 = hdr_n_columns C0 + 4" "current_nx C1 = hdr_n_columns C0"
    "current_ny C1 = hdr_n_rows C0" "hdr_n_columns C1 = hdr_n_columns C0"
    "hdr_n_rows C1 = hdr_n_rows C0" "constrained C1 = constrained C0"
    "periodic C1 = periodic C0" "total_iterations C1 = total_iterations C0"
    unfolding C1_def surface_set_grid_parameters_def Let_def using hdr
    by (simp_all add: c_div_one)
  have g4: "current_mx C4 = hdr_n_columns C0 + 4" "current_nx C4 = hdr_n_columns C0"
    "current_ny C4 = hdr_n_rows C0" "hdr_n_columns C4 = hdr_n_columns C0"
    "hdr_n_rows C4 = hdr_n_rows C0" "constrained C4 = constrained C0"
    "periodic C4 = periodic C0" "total_iterations C4 = total_iterations C0"
    using g1 unfolding C4' C3' by (subst remove_planar_trend_fields, simp)+
  have sx: "periodic C0 \<Longrightarrow> plane_sx C4 = 0"
    unfolding C4' using remove_planar_trend_periodic [of C3] g1(7) unfolding C3' by simp
  have g6: "current_mx C6 = hdr_n_columns C6 + 4" "hdr_n_columns C6 = hdr_n_columns C0"
    "hdr_n_rows C6 = hdr_n_rows C0" "z_rms C6 = 1" "Grid_data C6 = (\<lambda>node. 0)"
    "plane_icept C6 = plane_icept C4" "plane_sx C6 = plane_sx C4" "plane_sy C6 = plane_sy C4"
    unfolding C6_def C5_def using g4 by simp_all
  have C7': "C7 = C6\<lparr>Grid_data := Grid_data C7\<rparr>"
    unfolding C7_def surface_restore_planar_trend_def by simp
  have val: "Grid_data C7 (row_col_to_node r c (hdr_n_columns C0 + 4))
      = plane_icept C4 + plane_sx C4 * of_int c + plane_sy C4 * of_int (hdr_n_rows C0 - 1 - r)"
    if "0 \<le> r" "r < hdr_n_rows C0" "0 \<le> c" "c < hdr_n_columns C0" for r c
  proof -
    have "Grid_data C7 (row_col_to_node r c (current_mx C6))
      = Grid_data C6 (row_col_to_node r c (current_mx C6)) * z_rms C6
        + evaluate_plane C6 (of_int c) (of_int (hdr_n_rows C6 - r - 1))"
      unfolding C7_def using that g6(2,3) by (intro restore_grid_value [OF g6(1)]) simp_all
    then show ?thesis
      unfolding g6 evaluate_plane_def evaluate_trend_def by (simp add: algebra_simps)
  qed
  have f7: "constrained C7 = constrained C0" "periodic C7 = periodic C0"
    "current_mx C7 = hdr_n_columns C0 + 4" "current_nx C7 = hdr_n_columns C0"
    "current_ny C7 = hdr_n_rows C0" "total_iterations C7 = total_iterations C0"
    "z_rms C7 = 1" "plane_icept C7 = plane_icept C4" "plane_sx C7 = plane_sx C4"
    "plane_sy C7 = plane_sy C4"
    by (subst C7', simp add: C6_def C5_def g4)+
  have avg: "foldl (periodic_average C7) (Grid_data C7) (c_range (current_ny C7)) = Grid_data C7"
    if "periodic C0"
  proof (rule periodic_average_loop_id)
    fix r assume "r \<in> set (c_range (current_ny C7))"
    then have r: "0 \<le> r" "r < hdr_n_rows C0" by (simp_all add: c_range_mem f7)
    have e: "row_col_to_node r 0 (current_mx C7) + current_nx C7 - 1
        = row_col_to_node r (hdr_n_columns C0 - 1) (hdr_n_columns C0 + 4)"
      unfolding f7 by (simp add: row_col_to_node_def)
    show "Grid_data C7 (row_col_to_node r 0 (current_mx C7))
        = Grid_data C7 (row_col_to_node r 0 (current_mx C7) + current_nx C7 - 1)"
      unfolding e unfolding f7 using rc(3,4) sx [OF that] by (simp add: val r)
  qed
  have w: "surface_write_grid files C7 = (0, C7)"
  proof (cases "periodic C0")
    case True
    have "C7\<lparr>Grid_data := Grid_data C7\<rparr> = C7" by simp
    then show ?thesis
      unfolding surface_write_grid_def Let_def using nc f7(1,2) True avg [OF True] by simp
  next
    case False
    then show ?thesis
      unfolding surface_write_grid_def Let_def using nc f7(1,2) by simp
  qed
  have core: "GMT_surface_core qs files other input C0 = (GMT_NOERROR, C7)" for other
    unfolding GMT_surface_core_def Let_def
    using resc w unfolding C4 C7_def C6_def by (simp add: GMT_NOERROR_def)
  from core [of multigrid] res have e: "error = GMT_NOERROR" "C' = C7" by simp_all
  show ?thesis
    unfolding e using core val [OF rc] f7 by simp
qed



lemma compare_by_index: "d_index a < d_index b \<Longrightarrow> surface_compare_points C a b = - 1"
  "d_index b < d_index a \<Longrightarrow> surface_compare_points C a b = 1"
  by (simp_all add: surface_compare_points_def Let_def)

lemma plane_run_detrended:
  defines "C4 \<equiv> surface_remove_planar_trend (surface_throw_away_unusables insertion_sort
     ((surface_set_grid_parameters (C_plane\<lparr>current_stride := 1\<rparr>))\<lparr>data := plane_input\<rparr>))"
  shows "plane_icept C4 = 0" "plane_sx C4 = 1 / 4" "plane_sy C4 = 1 / 4"
    "map d_z (data C4) = [0, 0, 0, 0]"
proof -
  define C1 where "C1 = (surface_set_grid_parameters (C_plane\<lparr>current_stride := 1\<rparr>))\<lparr>data := plane_input\<rparr>"
  define L where "L = [\<lparr>d_x = 0, d_y = 1, d_z = 1, d_kind = 0, d_index = 0\<rparr>,
      \<lparr>d_x = 1, d_y = 1, d_z = 2, d_kind = 0, d_index = 4\<rparr>,
      \<lparr>d_x = 0, d_y = 0, d_z = 0, d_kind = 0, d_index = 20\<rparr>,
      \<lparr>d_x = 1, d_y = 0, d_z = 1, d_kind = 0, d_index = (24::nat)\<rparr>]"
  have f: "current_nx C1 = 5" "current_ny C1 = 5" "data C1 = plane_input"
    "hdr_inc_x C1 = 1 / 4" "hdr_inc_y C1 = 1 / 4" "wesn_xlo C1 = 0" "wesn_ylo C1 = 0"
    "periodic C1 = False"
    by (simp_all add: C1_def surface_set_grid_parameters_def Let_def C_plane_def C_memset_def c_div_one)
  have s: "insertion_sort (surface_compare_points C1) plane_input = L"
    by (simp add: insertion_sort_def plane_input_def compare_by_index L_def)
  have t: "surface_throw_away_unusables insertion_sort C1 = C1\<lparr>data := L\<rparr>"
    by (simp add: surface_throw_away_unusables_def Let_def f s UINTMAX_MAX_def L_def)
  have C4: "C4 = surface_remove_planar_trend (C1\<lparr>data := L\<rparr>)"
    unfolding C4_def C1_def [symmetric] t ..
  show "plane_icept C4 = 0" "plane_sx C4 = 1 / 4" "plane_sy C4 = 1 / 4"
    "map d_z (data C4) = [0, 0, 0, 0]"
    unfolding C4
    by (simp_all add: surface_remove_planar_trend_def Let_def f L_def data_fcol_def data_frow_def
      x_to_fcol_def y_to_frow_def evaluate_plane_def evaluate_trend_def)
qed

theorem planar_data_exit_witness:
  "n_columns C_plane = hdr_n_columns C_plane \<and> n_rows C_plane = hdr_n_rows C_plane
   \<and> \<not> constrained C_plane
   \<and> fst (GMT_surface_core insertion_sort no_files (\<lambda>C. (1, C)) plane_input C_plane) = GMT_NOERROR
   \<and> Grid_data (snd (GMT_surface_core insertion_sort no_files (\<lambda>C. (1, C)) plane_input C_plane))
        (row_col_to_node 1 2 9) = 5 / 4"
proof -
  define C4 where "C4 = surface_remove_planar_trend (surface_throw_away_unusables insertion_sort
     ((surface_set_grid_parameters (C_plane\<lparr>current_stride := 1\<rparr>))\<lparr>data := plane_input\<rparr>))"
  have h: "n_columns C_plane = hdr_n_columns C_plane" "n_rows C_plane = hdr_n_rows C_plane"
    "\<not> constrained C_plane"
    and d: "hdr_n_columns C_plane = 5" "hdr_n_rows C_plane = 5"
    by (simp_all add: C_plane_def C_memset_def)
  have "(\<Sum>d\<leftarrow>data C4. d_z d * d_z d) = (\<Sum>v\<leftarrow>map d_z (data C4). v * v)"
    by (simp add: comp_def)
  also have "\<dots> = 0"
    unfolding C4_def plane_run_detrended by simp
  finally have rms: "sqrt ((\<Sum>d\<leftarrow>data C4. d_z d * d_z d) / of_nat (length (data C4))) < 1 / 10 ^ 8"
    by simp
  obtain error C' where res:
    "GMT_surface_core insertion_sort no_files (\<lambda>C. (1, C)) plane_input C_plane = (error, C')"
    by (cases "GMT_surface_core insertion_sort no_files (\<lambda>C. (1, C)) plane_input C_plane")
  have "error = GMT_NOERROR \<and> Grid_data C' (row_col_to_node 1 2 (hdr_n_columns C_plane + 4))
        = plane_icept C4 + plane_sx C4 * of_int 2 + plane_sy C4 * of_int (hdr_n_rows C_plane - 1 - 1)"
    using planar_data_exit [OF h C4_def rms res, of 1 2] d by simp
  then show ?thesis
    unfolding res using h d plane_run_detrended(1-3) unfolding C4_def by simp
qed

subsection \<open>Bounds on the written grid\<close>



















subsection \<open>One nearest point per bin\<close>














subsection \<open>Alignment of the Briggs table\<close>
























lemma sweep_passes_arrival:
  assumes "0 \<le> row" "row < current_ny C" "0 \<le> col" "col < current_nx C"
  shows "surface_sweep C =
     foldl (sweep_row C)
       (foldl (iterate_node C row) (iterate_node C row (sweep_arrival C row col) col)
          (drop (nat col + 1) (c_range (current_nx C))))
       (drop (nat row + 1) (c_range (current_ny C)))"
proof -
  have split: "c_range n = c_range i @ i # drop (nat i + 1) (c_range n)" if "0 \<le> i" "i < n" for i n
  proof -
    have a: "[0..<nat n] = [0..<nat i] @ [nat i..<nat n]"
      using upt_add_eq_append [of 0 "nat i" "nat n - nat i"] that by simp
    have b: "[nat i..<nat n] = nat i # [nat i + 1..<nat n]"
      using that by (simp add: upt_conv_Cons)
    have "[0..<nat n] = [0..<nat i] @ nat i # [nat i + 1..<nat n]"
      using a b by simp
    moreover have "drop (nat i + 1) [0..<nat n] = [nat i + 1..<nat n]"
      by (simp add: drop_upt)
    ultimately show ?thesis
      using that by (simp add: c_range_def drop_map)
  qed
  have "foldl (sweep_row C) s (c_range (current_ny C)) =
          foldl (sweep_row C) (sweep_row C (foldl (sweep_row C) s (c_range row)) row)
            (drop (nat row + 1) (c_range (current_ny C)))" for s
    by (subst split [OF assms(1,2)]) simp
  moreover have "sweep_row C s row =
          foldl (iterate_node C row) (iterate_node C row (foldl (iterate_node C row) s (c_range col)) col)
            (drop (nat col + 1) (c_range (current_nx C)))" for s
    unfolding sweep_row_def by (subst split [OF assms(3,4)]) simp
  ultimately show ?thesis
    unfolding surface_sweep_def sweep_arrival_def by simp
qed






end
